theory Spec2Isabelle
  imports Complex_Main "HOL-Library.AList"
begin

section \<open>Python values used by \<^verbatim>\<open>modules/date_collection.py\<close>\<close>

subsection \<open>Exceptions\<close>

text \<open>
  Every exception that can leave a function of the module is a value. \<open>SystemExit\<close>
  carries the lines that \<^verbatim>\<open>print\<close> wrote before \<^verbatim>\<open>raise SystemExit()\<close>; nothing else
  in the module prints.
\<close>

datatype error =
    SystemExit "string list"
  | KeyError
  | TypeError
  | ValueError
  | OverflowError

text \<open>
  A method mutates its object in place, so an exception leaves the object in the state it
  had when the exception was raised. \<open>Raised e s\<close> keeps that state.
\<close>

datatype 's outcome = Returned 's | Raised error 's

fun state_of :: "'s outcome \<Rightarrow> 's" where
  "state_of (Returned s) = s"
| "state_of (Raised e s) = s"

text \<open>Two calls in a row: the second one runs only when the first one returned.\<close>

fun and_then :: "'s outcome \<Rightarrow> ('s \<Rightarrow> 's outcome) \<Rightarrow> 's outcome" where
  "and_then (Returned s) f = f s"
| "and_then (Raised e s) f = Raised e s"

text \<open>
  Inside an expression: the next operation is evaluated only when the one before it
  returned a value, and an exception ends the evaluation.
\<close>

fun then_do :: "error + 'a \<Rightarrow> ('a \<Rightarrow> error + 'b) \<Rightarrow> error + 'b" where
  "then_do (Inl e) f = Inl e"
| "then_do (Inr v) f = f v"

subsection \<open>\<^verbatim>\<open>datetime.date\<close>\<close>

text \<open>
  A \<^verbatim>\<open>date\<close> is its proleptic Gregorian ordinal (\<^verbatim>\<open>date.toordinal()\<close>): day 1 is
  0001-01-01 (\<^verbatim>\<open>date.min\<close>) and day 3652059 is 9999-12-31 (\<^verbatim>\<open>date.max\<close>).
  \<^verbatim>\<open>date - timedelta(days=n)\<close> raises \<^verbatim>\<open>OverflowError\<close> when the result leaves that range
  (and \<^verbatim>\<open>timedelta\<close> itself does for \<open>|n| > 999999999\<close>, which leaves the range too).
\<close>

type_synonym date = int

definition date_min :: date where
  "date_min = 1"

definition date_max :: date where
  "date_max = 3652059"

definition date_sub_days :: "date \<Rightarrow> int \<Rightarrow> error + date" where
  "date_sub_days d n =
     (let r = d - n in
      if date_min \<le> r \<and> r \<le> date_max then Inr r else Inl OverflowError)"

text \<open>
  \<^verbatim>\<open>date(year, month, day)\<close>: CPython first converts the three arguments to C
  \<^verbatim>\<open>int\<close>s and raises \<^verbatim>\<open>OverflowError\<close> when one of them does not fit; then come the
  field checks, which raise \<^verbatim>\<open>ValueError\<close>, and the ordinal of \<^verbatim>\<open>_ymd2ord\<close>.
\<close>

definition fits_c_int :: "int \<Rightarrow> bool" where
  "fits_c_int x \<longleftrightarrow> - (2 ^ 31) \<le> x \<and> x < 2 ^ 31"

definition is_leap :: "int \<Rightarrow> bool" where
  "is_leap year \<longleftrightarrow> year mod 4 = 0 \<and> (year mod 100 \<noteq> 0 \<or> year mod 400 = 0)"

definition days_before_year :: "int \<Rightarrow> int" where
  "days_before_year year =
     (let y = year - 1 in y * 365 + y div 4 - y div 100 + y div 400)"

definition DAYS_IN_MONTH :: "int list" where
  "DAYS_IN_MONTH = [31, 28, 31, 30, 31, 30, 31, 31, 30, 31, 30, 31]"

definition days_in_month :: "int \<Rightarrow> int \<Rightarrow> int" where
  "days_in_month year month =
     (if month = 2 \<and> is_leap year then 29 else DAYS_IN_MONTH ! nat (month - 1))"

definition days_before_month :: "int \<Rightarrow> int \<Rightarrow> int" where
  "days_before_month year month =
     sum_list (take (nat (month - 1)) DAYS_IN_MONTH)
       + (if month > 2 \<and> is_leap year then 1 else 0)"

definition date_ymd :: "int \<Rightarrow> int \<Rightarrow> int \<Rightarrow> error + date" where
  "date_ymd year month day =
     (if fits_c_int year \<and> fits_c_int month \<and> fits_c_int day then
        (if 1 \<le> year \<and> year \<le> 9999 \<and> 1 \<le> month \<and> month \<le> 12
            \<and> 1 \<le> day \<and> day \<le> days_in_month year month
         then Inr (days_before_year year + days_before_month year month + day)
         else Inl ValueError)
      else Inl OverflowError)"

subsection \<open>Floats and the \<^verbatim>\<open>math\<close> module\<close>

text \<open>
  A Python \<^verbatim>\<open>float\<close> is a value of a type \<open>'f\<close> about which nothing is assumed: neither
  that it is the real numbers nor any law of arithmetic. The float operators \<^verbatim>\<open>+\<close>, \<^verbatim>\<open>-\<close>,
  \<^verbatim>\<open>*\<close> and \<^verbatim>\<open>/\<close> are the operations of that type (they never raise on the floats of this
  module: the only divisors are the literals \<^verbatim>\<open>2\<close> and \<^verbatim>\<open>180\<close>), and \<open>0\<close> is the float
  \<^verbatim>\<open>0.0\<close>. Everything else that the module uses of floats is a field of the record below:

    \<^item> \<open>math_pi\<close> is \<^verbatim>\<open>math.pi\<close>;
    \<^item> \<open>math_sin\<close>, \<open>math_cos\<close> and \<open>math_sqrt\<close> are \<^verbatim>\<open>math.sin\<close>, \<^verbatim>\<open>math.cos\<close> and
      \<^verbatim>\<open>math.sqrt\<close>, which raise \<^verbatim>\<open>ValueError\<close> outside their domain (an infinite angle,
      a negative radicand);
    \<^item> \<open>math_atan2\<close> is \<^verbatim>\<open>math.atan2\<close>, which returns for all floats;
    \<^item> \<open>float_pow x n\<close> is \<^verbatim>\<open>x ** n\<close> for a float \<open>x\<close> and an \<^verbatim>\<open>int\<close> literal \<open>n\<close>, which
      raises \<^verbatim>\<open>OverflowError\<close> when the result is out of range;
    \<^item> \<open>float_of q\<close> is the float that the \<^verbatim>\<open>int\<close> or the decimal literal \<open>q\<close> denotes where
      Python converts it in mixed arithmetic or reads it from the source.

  The methods that compute with floats take such a record \<open>m\<close> as their first argument.
  What is proved of them for all \<open>m\<close> holds of IEEE doubles with the platform's C library
  as it does of any other arithmetic; in particular no rounding behaviour is assumed.
\<close>

record 'f math_module =
  math_pi :: 'f
  math_sin :: "'f \<Rightarrow> error + 'f"
  math_cos :: "'f \<Rightarrow> error + 'f"
  math_sqrt :: "'f \<Rightarrow> error + 'f"
  math_atan2 :: "'f \<Rightarrow> 'f \<Rightarrow> 'f"
  float_pow :: "'f \<Rightarrow> nat \<Rightarrow> error + 'f"
  float_of :: "rat \<Rightarrow> 'f"

subsection \<open>The coordinate reference table\<close>

text \<open>
  \<^verbatim>\<open>json.load\<close> of \<^verbatim>\<open>data/coordinates.json\<close>: nested objects whose leaves are
  two-element \<^verbatim>\<open>[latitude, longitude]\<close> arrays of floats. The file is not part of the
  sources, so the loaded table is a parameter of the constructors.
\<close>

datatype 'f json = JCoords 'f 'f | JDict "(string \<times> 'f json) list"

text \<open>
  \<^verbatim>\<open>operator.getitem(obj, key)\<close> with a string key: a dict looks the key up and raises
  \<^verbatim>\<open>KeyError\<close> when it is missing; a list refuses a string index with \<^verbatim>\<open>TypeError\<close>.
\<close>

fun getitem :: "'f json \<Rightarrow> string \<Rightarrow> error + 'f json" where
  "getitem (JDict items) key =
     (case map_of items key of None \<Rightarrow> Inl KeyError | Some v \<Rightarrow> Inr v)"
| "getitem (JCoords lat lon) key = Inl TypeError"

text \<open>\<^verbatim>\<open>reduce(operator.getitem, location_list, table)\<close>.\<close>

fun reduce_getitem :: "string list \<Rightarrow> 'f json \<Rightarrow> error + 'f json" where
  "reduce_getitem [] acc = Inr acc"
| "reduce_getitem (key # keys) acc =
     (case getitem acc key of Inl e \<Rightarrow> Inl e | Inr v \<Rightarrow> reduce_getitem keys v)"

text \<open>\<^verbatim>\<open>str.split(sep)\<close> for a one-character separator.\<close>

fun split :: "char \<Rightarrow> string \<Rightarrow> string list" where
  "split sep [] = [[]]"
| "split sep (c # cs) =
     (if c = sep then [] # split sep cs
      else (case split sep cs of [] \<Rightarrow> [[c]] | w # ws \<Rightarrow> (c # w) # ws))"

section \<open>\<^verbatim>\<open>first_morning\<close>\<close>

definition first_morning :: "date \<Rightarrow> int \<Rightarrow> error + date" where
  "first_morning checkout_date nights = date_sub_days checkout_date (nights - 1)"

section \<open>\<^verbatim>\<open>class DateCollection\<close>\<close>

text \<open>
  One entry of \<^verbatim>\<open>self.locations\<close> is \<^verbatim>\<open>None\<close> or a dict with the keys \<^verbatim>\<open>city\<close> and
  \<^verbatim>\<open>coordinates\<close>, and \<^verbatim>\<open>distance\<close> in the subclass. The module never mutates such a dict
  after building it (it always stores a fresh one), so entries are values.
\<close>

record 'f assignment =
  city :: string
  coordinates :: "'f json"
  distance :: "'f option"

text \<open>
  \<^verbatim>\<open>self.locations\<close> is a dict: its items in insertion order, keys distinct.
  \<^verbatim>\<open>d[k] = v\<close> is \<^const>\<open>AList.update\<close>.
\<close>

type_synonym 'f locations = "(date \<times> 'f assignment option) list"

record 'f date_collection =
  location_coordinates :: "'f json"
  locations :: "'f locations"

definition COORDINATES_PATH :: string where
  "COORDINATES_PATH = ''data/coordinates.json''"

text \<open>The three \<^verbatim>\<open>print\<close> calls of the \<^verbatim>\<open>except KeyError\<close> branch, one string per call.\<close>

definition not_found_output :: "string \<Rightarrow> string list" where
  "not_found_output location =
     [CHR 0x0A # ''Could not find coordinates for:'',
      location,
      CHR 0x0A # ''Please add it to '' @ COORDINATES_PATH @ ''.'' @ [CHR 0x0A]]"

text \<open>
  \<^verbatim>\<open>_coordinates\<close> reads only \<^verbatim>\<open>self.location_coordinates\<close>, which is its first argument
  here. Only \<^verbatim>\<open>KeyError\<close> is caught.
\<close>

definition dc_coordinates :: "'f json \<Rightarrow> string \<Rightarrow> error + 'f json" where
  "dc_coordinates table location =
     (case reduce_getitem (split CHR ''/'' location) table of
        Inl KeyError \<Rightarrow> Inl (SystemExit (not_found_output location))
      | Inl e \<Rightarrow> Inl e
      | Inr c \<Rightarrow> Inr c)"

text \<open>
  \<^verbatim>\<open>_inclusive_date_range\<close>: \<^verbatim>\<open>rrule(DAILY, dtstart, until)\<close> yields every day from
  \<^verbatim>\<open>dtstart\<close> up to and including \<^verbatim>\<open>until\<close>, and nothing when \<^verbatim>\<open>until\<close> is earlier.
\<close>

definition dc_inclusive_date_range :: "date \<Rightarrow> date \<Rightarrow> date list" where
  "dc_inclusive_date_range start_date end_date = [start_date..end_date]"

text \<open>\<^verbatim>\<open>DateCollection.__init__\<close>; \<open>table\<close> is what \<^verbatim>\<open>json.load\<close> returned.\<close>

definition dc_init ::
  "'f json \<Rightarrow> date \<Rightarrow> date \<Rightarrow> string option \<Rightarrow> error + 'f date_collection" where
  "dc_init table start_date end_date default_location =
     (case (case default_location of
              None \<Rightarrow> Inr None
            | Some loc \<Rightarrow>
                (case dc_coordinates table loc of
                   Inl e \<Rightarrow> Inl e
                 | Inr c \<Rightarrow> Inr (Some \<lparr>city = loc, coordinates = c, distance = None\<rparr>))) of
        Inl e \<Rightarrow> Inl e
      | Inr default_value \<Rightarrow>
          Inr \<lparr>location_coordinates = table,
               locations = map (\<lambda>d. (d, default_value))
                             (dc_inclusive_date_range start_date end_date)\<rparr>)"

text \<open>The local variable \<^verbatim>\<open>dates\<close> of both \<^verbatim>\<open>set_location\<close> methods.\<close>

definition stay_dates :: "date \<Rightarrow> int \<Rightarrow> error + date list" where
  "stay_dates checkout_date nights =
     (case first_morning checkout_date nights of
        Inl e \<Rightarrow> Inl e
      | Inr fm \<Rightarrow> Inr (dc_inclusive_date_range fm checkout_date))"

text \<open>The \<^verbatim>\<open>for day in dates\<close> loop of \<^verbatim>\<open>DateCollection.set_location\<close>.\<close>

fun dc_set_location_loop ::
  "'f json \<Rightarrow> string \<Rightarrow> date list \<Rightarrow> 'f locations \<Rightarrow> 'f locations outcome" where
  "dc_set_location_loop table location [] locs = Returned locs"
| "dc_set_location_loop table location (day # dates) locs =
     (if day \<in> fst ` set locs then
        (case dc_coordinates table location of
           Inl e \<Rightarrow> Raised e locs
         | Inr c \<Rightarrow>
             dc_set_location_loop table location dates
               (AList.update day (Some \<lparr>city = location, coordinates = c, distance = None\<rparr>) locs))
      else dc_set_location_loop table location dates locs)"

definition dc_set_location ::
  "'f date_collection \<Rightarrow> date \<Rightarrow> int \<Rightarrow> string \<Rightarrow> 'f date_collection outcome" where
  "dc_set_location self checkout_date nights location =
     (case stay_dates checkout_date nights of
        Inl e \<Rightarrow> Raised e self
      | Inr dates \<Rightarrow>
          map_outcome (\<lambda>locs. self\<lparr>locations := locs\<rparr>)
            (dc_set_location_loop (location_coordinates self) location dates (locations self)))"

section \<open>\<^verbatim>\<open>class DateDistanceCollection(DateCollection)\<close>\<close>

record 'f date_distance_collection = "'f date_collection" +
  home_coordinates :: "'f json"

text \<open>The class attributes; \<^verbatim>\<open>DEG_TO_RAD = math.pi/180\<close>.\<close>

definition EARTH_MEAN_RADIUS :: "'f math_module \<Rightarrow> 'f" where
  "EARTH_MEAN_RADIUS m = float_of m 3958.7613"

definition DEG_TO_RAD :: "'f::inverse math_module \<Rightarrow> 'f" where
  "DEG_TO_RAD m = math_pi m / float_of m 180"

text \<open>
  The loop of \<^verbatim>\<open>DateDistanceCollection.__init__\<close> over \<^verbatim>\<open>self.locations.items()\<close>;
  \<^verbatim>\<open>{**loc, 'distance': 0.0}\<close> raises \<^verbatim>\<open>TypeError\<close> when \<^verbatim>\<open>loc\<close> is \<^verbatim>\<open>None\<close>.
\<close>

fun ddc_init_loop ::
  "(date \<times> 'f::zero assignment option) list \<Rightarrow> 'f locations \<Rightarrow> error + 'f locations" where
  "ddc_init_loop [] locs = Inr locs"
| "ddc_init_loop ((day, loc) # items) locs =
     (case loc of
        None \<Rightarrow> Inl TypeError
      | Some a \<Rightarrow> ddc_init_loop items (AList.update day (Some (a\<lparr>distance := Some 0\<rparr>)) locs))"

definition ddc_init ::
  "'f::zero json \<Rightarrow> int \<Rightarrow> int \<Rightarrow> string \<Rightarrow> error + 'f date_distance_collection" where
  "ddc_init table start_year end_year home_location =
     (case date_ymd start_year 1 1 of
        Inl e \<Rightarrow> Inl e
      | Inr start_date \<Rightarrow>
     (case date_ymd end_year 12 31 of
        Inl e \<Rightarrow> Inl e
      | Inr end_date \<Rightarrow>
     (case dc_init table start_date end_date (Some home_location) of
        Inl e \<Rightarrow> Inl e
      | Inr base \<Rightarrow>
     (case dc_coordinates table home_location of
        Inl e \<Rightarrow> Inl e
      | Inr home \<Rightarrow>
     (case ddc_init_loop (locations base) (locations base) of
        Inl e \<Rightarrow> Inl e
      | Inr locs \<Rightarrow>
          Inr \<lparr>location_coordinates = table, locations = locs, home_coordinates = home\<rparr>)))))"

text \<open>
  The statement \<^verbatim>\<open>a = (math.sin(delta_phi/2)**2 + math.cos(phi_1) * math.cos(phi_2) *
  math.sin(delta_lambda/2)**2)\<close> of \<^verbatim>\<open>_home_distance\<close>, with the library calls in the order
  in which Python evaluates them.
\<close>

definition haversine_a ::
  "'f::{plus,times,inverse} math_module \<Rightarrow> 'f \<Rightarrow> 'f \<Rightarrow> 'f \<Rightarrow> 'f \<Rightarrow> error + 'f" where
  "haversine_a m phi_1 phi_2 delta_phi delta_lambda =
     then_do (math_sin m (delta_phi / float_of m 2)) (\<lambda>sin_phi.
     then_do (float_pow m sin_phi 2) (\<lambda>sin_phi_sq.
     then_do (math_cos m phi_1) (\<lambda>cos_1.
     then_do (math_cos m phi_2) (\<lambda>cos_2.
     then_do (math_sin m (delta_lambda / float_of m 2)) (\<lambda>sin_lambda.
     then_do (float_pow m sin_lambda 2) (\<lambda>sin_lambda_sq.
     Inr (sin_phi_sq + cos_1 * cos_2 * sin_lambda_sq)))))))"

text \<open>
  The statement \<^verbatim>\<open>distance = (2 * self.EARTH_MEAN_RADIUS * math.atan2(math.sqrt(a),
  math.sqrt(1-a)))\<close>. Nothing keeps \<open>a\<close> within \<open>[0, 1]\<close> before the second square root is
  taken.
\<close>

definition haversine_distance ::
  "'f::{minus,times} math_module \<Rightarrow> 'f \<Rightarrow> error + 'f" where
  "haversine_distance m a =
     then_do (math_sqrt m a) (\<lambda>sqrt_a.
     then_do (math_sqrt m (float_of m 1 - a)) (\<lambda>sqrt_1a.
     Inr (float_of m 2 * EARTH_MEAN_RADIUS m * math_atan2 m sqrt_a sqrt_1a)))"

text \<open>
  \<^verbatim>\<open>_home_distance\<close>. Indexing a dict of the table with \<^verbatim>\<open>[0]\<close> raises \<^verbatim>\<open>KeyError\<close>
  (its keys are strings), whichever of the two coordinates is the dict.
\<close>

definition ddc_home_distance ::
  "'f::{plus,minus,times,inverse} math_module \<Rightarrow> 'f date_distance_collection \<Rightarrow> string
     \<Rightarrow> error + 'f" where
  "ddc_home_distance m self location =
     (case dc_coordinates (location_coordinates self) location of
        Inl e \<Rightarrow> Inl e
      | Inr location_coords \<Rightarrow>
     (case (home_coordinates self, location_coords) of
        (JCoords home_lat home_lon, JCoords loc_lat loc_lon) \<Rightarrow>
          (let phi_1 = home_lat * DEG_TO_RAD m;
               phi_2 = loc_lat * DEG_TO_RAD m;
               delta_phi = (loc_lat - home_lat) * DEG_TO_RAD m;
               delta_lambda = (loc_lon - home_lon) * DEG_TO_RAD m
           in then_do (haversine_a m phi_1 phi_2 delta_phi delta_lambda)
                (haversine_distance m))
      | _ \<Rightarrow> Inl KeyError))"

text \<open>
  The \<^verbatim>\<open>for day in dates\<close> loop of \<^verbatim>\<open>DateDistanceCollection.set_location\<close>; \<open>distance_value\<close> is
  the local variable \<^verbatim>\<open>distance\<close>, assigned before the loop.
\<close>

fun ddc_set_location_loop ::
  "'f json \<Rightarrow> string \<Rightarrow> 'f \<Rightarrow> date list \<Rightarrow> 'f locations \<Rightarrow> 'f locations outcome" where
  "ddc_set_location_loop table location distance_value [] locs = Returned locs"
| "ddc_set_location_loop table location distance_value (day # dates) locs =
     (if day \<in> fst ` set locs then
        (case dc_coordinates table location of
           Inl e \<Rightarrow> Raised e locs
         | Inr c \<Rightarrow>
             ddc_set_location_loop table location distance_value dates
               (AList.update day
                  (Some \<lparr>city = location, coordinates = c, distance = Some distance_value\<rparr>) locs))
      else ddc_set_location_loop table location distance_value dates locs)"

definition ddc_set_location ::
  "'f::{plus,minus,times,inverse} math_module \<Rightarrow> 'f date_distance_collection \<Rightarrow> date \<Rightarrow> int
     \<Rightarrow> string \<Rightarrow> 'f date_distance_collection outcome" where
  "ddc_set_location m self checkout_date nights location =
     (case stay_dates checkout_date nights of
        Inl e \<Rightarrow> Raised e self
      | Inr dates \<Rightarrow>
     (case ddc_home_distance m self location of
        Inl e \<Rightarrow> Raised e self
      | Inr distance_value \<Rightarrow>
          map_outcome (\<lambda>locs. self\<lparr>locations := locs\<rparr>)
            (ddc_set_location_loop (location_coordinates self) location distance_value dates
               (locations self))))"

subsection \<open>\<^verbatim>\<open>set_location\<close> with a record of the \<^verbatim>\<open>_home_distance\<close> calls\<close>

text \<open>
  How often \<^verbatim>\<open>set_location\<close> calls \<^verbatim>\<open>_home_distance\<close> cannot be read off the calendar it
  leaves behind. Here the method is written out once more with a log of those calls
  threaded through it in execution order: every call of \<^verbatim>\<open>_home_distance\<close> appends its
  argument to the log, whether it returns or raises, and nothing else touches the log. The
  loop is handed the log as well, so that a call made inside it would show.
\<close>

definition ddc_home_distance_traced ::
  "'f::{plus,minus,times,inverse} math_module \<Rightarrow> 'f date_distance_collection \<Rightarrow> string
     \<Rightarrow> string list \<Rightarrow> (error + 'f) \<times> string list" where
  "ddc_home_distance_traced m self location calls =
     (ddc_home_distance m self location, calls @ [location])"

fun ddc_set_location_loop_traced ::
  "'f json \<Rightarrow> string \<Rightarrow> 'f \<Rightarrow> date list \<Rightarrow> 'f locations \<Rightarrow> string list
     \<Rightarrow> 'f locations outcome \<times> string list" where
  "ddc_set_location_loop_traced table location distance_value [] locs calls =
     (Returned locs, calls)"
| "ddc_set_location_loop_traced table location distance_value (day # dates) locs calls =
     (if day \<in> fst ` set locs then
        (case dc_coordinates table location of
           Inl e \<Rightarrow> (Raised e locs, calls)
         | Inr c \<Rightarrow>
             ddc_set_location_loop_traced table location distance_value dates
               (AList.update day
                  (Some \<lparr>city = location, coordinates = c, distance = Some distance_value\<rparr>) locs)
               calls)
      else ddc_set_location_loop_traced table location distance_value dates locs calls)"

definition ddc_set_location_traced ::
  "'f::{plus,minus,times,inverse} math_module \<Rightarrow> 'f date_distance_collection \<Rightarrow> date \<Rightarrow> int
     \<Rightarrow> string \<Rightarrow> string list \<Rightarrow> 'f date_distance_collection outcome \<times> string list" where
  "ddc_set_location_traced m self checkout_date nights location calls =
     (case stay_dates checkout_date nights of
        Inl e \<Rightarrow> (Raised e self, calls)
      | Inr dates \<Rightarrow>
     (case ddc_home_distance_traced m self location calls of
        (Inl e, calls') \<Rightarrow> (Raised e self, calls')
      | (Inr distance_value, calls') \<Rightarrow>
     (case ddc_set_location_loop_traced (location_coordinates self) location distance_value
             dates (locations self) calls' of
        (result, calls'') \<Rightarrow>
          (map_outcome (\<lambda>locs. self\<lparr>locations := locs\<rparr>) result, calls''))))"

section \<open>The reference formula of the specification\<close>

text \<open>
  The haversine distance as the specification writes it, over the real numbers:
  \<open>R = 3958.7613\<close> miles, home \<open>(\<phi>\<^sub>1, \<lambda>\<^sub>1)\<close> and destination \<open>(\<phi>\<^sub>2, \<lambda>\<^sub>2)\<close> in degrees,
  \<open>\<Delta>\<phi> = (\<phi>\<^sub>2 - \<phi>\<^sub>1)\<cdot>(\<pi>/180)\<close>, \<open>\<Delta>\<lambda> = (\<lambda>\<^sub>2 - \<lambda>\<^sub>1)\<cdot>(\<pi>/180)\<close>,
  \<open>a = sin\<^sup>2(\<Delta>\<phi>/2) + cos \<phi>\<^sub>1 \<cdot> cos \<phi>\<^sub>2 \<cdot> sin\<^sup>2(\<Delta>\<lambda>/2)\<close> with the latitudes in radians, and
  \<open>distance = 2\<cdot>R\<cdot>atan2(\<surd>a, \<surd>(1 - a))\<close>; \<open>atan2 y x\<close> is the angle of the point \<open>(x, y)\<close> in
  \<open>(-\<pi>, \<pi>]\<close>.
\<close>

definition atan2 :: "real \<Rightarrow> real \<Rightarrow> real" where
  "atan2 y x =
     (if 0 < x then arctan (y / x)
      else if x < 0 then (if 0 \<le> y then arctan (y / x) + pi else arctan (y / x) - pi)
      else if 0 < y then pi / 2
      else if y < 0 then - (pi / 2)
      else 0)"

definition spec_haversine_a :: "real \<times> real \<Rightarrow> real \<times> real \<Rightarrow> real" where
  "spec_haversine_a home dest =
     (sin (((fst dest - fst home) * (pi / 180)) / 2))\<^sup>2
       + cos (fst home * (pi / 180)) * cos (fst dest * (pi / 180))
           * (sin (((snd dest - snd home) * (pi / 180)) / 2))\<^sup>2"

definition spec_haversine_distance :: "real \<times> real \<Rightarrow> real \<times> real \<Rightarrow> real" where
  "spec_haversine_distance home dest =
     2 * 3958.7613
       * atan2 (sqrt (spec_haversine_a home dest)) (sqrt (1 - spec_haversine_a home dest))"

text \<open>
  Exact arithmetic as one instance of the float operations: the floats are the real
  numbers, the functions are the mathematical ones, and \<^verbatim>\<open>math.sqrt\<close> raises on a negative
  number. It is the arithmetic in which the specification states its formula, and it is
  used below to run the methods on examples. Python's doubles are another instance, and no
  theorem about the methods is proved for this one only unless it says so.
\<close>

definition exact_math :: "real math_module" where
  "exact_math =
     \<lparr>math_pi = pi,
      math_sin = (\<lambda>x. Inr (sin x)),
      math_cos = (\<lambda>x. Inr (cos x)),
      math_sqrt = (\<lambda>x. if x < 0 then Inl ValueError else Inr (sqrt x)),
      math_atan2 = atan2,
      float_pow = (\<lambda>x n. Inr (x ^ n)),
      float_of = of_rat\<rparr>"

section \<open>Callers and proof devices\<close>

text \<open>
  A caller builds one calendar and then calls \<^verbatim>\<open>set_location\<close> once per stay, one
  \<open>(checkout_date, nights, location)\<close> triple each; an exception ends the run.
\<close>

fun dc_set_locations ::
  "'f date_collection \<Rightarrow> (date \<times> int \<times> string) list \<Rightarrow> 'f date_collection outcome" where
  "dc_set_locations self [] = Returned self"
| "dc_set_locations self ((checkout_date, nights, location) # stays) =
     and_then (dc_set_location self checkout_date nights location)
       (\<lambda>self'. dc_set_locations self' stays)"

fun ddc_set_locations ::
  "'f::{plus,minus,times,inverse} math_module \<Rightarrow> 'f date_distance_collection
     \<Rightarrow> (date \<times> int \<times> string) list \<Rightarrow> 'f date_distance_collection outcome" where
  "ddc_set_locations m self [] = Returned self"
| "ddc_set_locations m self ((checkout_date, nights, location) # stays) =
     and_then (ddc_set_location m self checkout_date nights location)
       (\<lambda>self'. ddc_set_locations m self' stays)"

text \<open>
  Both \<^verbatim>\<open>set_location\<close> loops have one shape: \<open>r\<close> is what building the new entry
  gives on every round, an exception or the entry. The loops are proved equal to it below,
  so that each property of the loops is proved once.
\<close>

fun stamp ::
  "error + 'f assignment \<Rightarrow> date list \<Rightarrow> 'f locations \<Rightarrow> 'f locations outcome" where
  "stamp r [] locs = Returned locs"
| "stamp r (day # dates) locs =
     (if day \<in> fst ` set locs then
        (case r of
           Inl e \<Rightarrow> Raised e locs
         | Inr a \<Rightarrow> stamp r dates (AList.update day (Some a) locs))
      else stamp r dates locs)"

definition dc_entry :: "'f json \<Rightarrow> string \<Rightarrow> error + 'f assignment" where
  "dc_entry table location =
     (case dc_coordinates table location of
        Inl e \<Rightarrow> Inl e
      | Inr c \<Rightarrow> Inr \<lparr>city = location, coordinates = c, distance = None\<rparr>)"

definition ddc_entry :: "'f json \<Rightarrow> string \<Rightarrow> 'f \<Rightarrow> error + 'f assignment" where
  "ddc_entry table location distance_value =
     (case dc_coordinates table location of
        Inl e \<Rightarrow> Inl e
      | Inr c \<Rightarrow> Inr \<lparr>city = location, coordinates = c, distance = Some distance_value\<rparr>)"

text \<open>A small reference table and calendars for the concrete instances below.\<close>

definition example_table :: "real json" where
  "example_table =
     JDict [(''A'', JDict [(''Origin'', JCoords 0 0), (''East'', JCoords 0 90)]),
            (''B'', JCoords 10 20)]"

definition example_calendar :: "real date_collection" where
  "example_calendar =
     \<lparr>location_coordinates = example_table,
      locations = [(10, None), (11, None), (12, None)]\<rparr>"

definition example_early_calendar :: "real date_collection" where
  "example_early_calendar =
     \<lparr>location_coordinates = example_table,
      locations = [(1, None), (2, None), (3, None)]\<rparr>"

definition example_distance_calendar :: "real date_distance_collection" where
  "example_distance_calendar =
     \<lparr>location_coordinates = example_table,
      locations = [(10, None), (11, None), (12, None)],
      home_coordinates = JCoords 0 0\<rparr>"

definition example_home_entry :: "real assignment" where
  "example_home_entry =
     \<lparr>city = ''A/Origin'', coordinates = JCoords 0 0, distance = Some 0\<rparr>"

definition example_early_distance_calendar :: "real date_distance_collection" where
  "example_early_distance_calendar =
     \<lparr>location_coordinates = example_table,
      locations = [(1, Some example_home_entry), (2, Some example_home_entry),
                   (3, Some example_home_entry)],
      home_coordinates = JCoords 0 0\<rparr>"

section \<open>The loops\<close>

lemma dc_loop_stamp:
  "dc_set_location_loop table location dates locs = stamp (dc_entry table location) dates locs"
  by (induction dates arbitrary: locs) (auto simp: dc_entry_def split: sum.splits)

lemma ddc_loop_stamp:
  "ddc_set_location_loop table location distance_value dates locs =
     stamp (ddc_entry table location distance_value) dates locs"
  by (induction dates arbitrary: locs) (auto simp: ddc_entry_def split: sum.splits)

lemma update_present_keys:
  "k \<in> fst ` set al \<Longrightarrow> map fst (AList.update k v al) = map fst al"
  by (simp add: update_keys)

text \<open>The loop never adds or removes a key, whether it returns or raises.\<close>

lemma stamp_keys: "map fst (state_of (stamp r dates locs)) = map fst locs"
proof (induction dates arbitrary: locs)
  case Nil
  show ?case by simp
next
  case (Cons day dates)
  show ?case
  proof (cases "day \<in> fst ` set locs")
    case True
    then show ?thesis
      using Cons.IH [of "AList.update day (Some (projr r)) locs"]
      by (cases r) (simp_all add: update_present_keys)
  next
    case False
    then show ?thesis using Cons.IH [of locs] by simp
  qed
qed

text \<open>
  When the entry cannot be built, the loop raises at the first date that is a key, before
  storing anything, and returns normally when no date is a key.
\<close>

lemma stamp_Inl:
  "stamp (Inl e) dates locs =
     (if set dates \<inter> fst ` set locs = {} then Returned locs else Raised e locs)"
  by (induction dates arbitrary: locs) auto

lemma stamp_Inr_Returned: "\<exists>locs'. stamp (Inr a) dates locs = Returned locs'"
  by (induction dates arbitrary: locs) auto

lemma stamp_Raised_unchanged:
  "stamp r dates locs = Raised e locs' \<Longrightarrow> locs' = locs \<and> r = Inl e"
proof (cases r)
  case (Inl e')
  assume "stamp r dates locs = Raised e locs'"
  with Inl show ?thesis by (simp add: stamp_Inl split: if_splits)
next
  case (Inr a)
  assume "stamp r dates locs = Raised e locs'"
  with Inr stamp_Inr_Returned [of a dates locs] show ?thesis by auto
qed

lemma stamp_map_of:
  "stamp (Inr a) dates locs = Returned locs' \<Longrightarrow>
     map_of locs' d =
       (if d \<in> set dates \<and> d \<in> fst ` set locs then Some (Some a) else map_of locs d)"
proof (induction dates arbitrary: locs)
  case Nil
  then show ?case by simp
next
  case (Cons day dates)
  show ?case
  proof (cases "day \<in> fst ` set locs")
    case True
    with Cons.prems have "stamp (Inr a) dates (AList.update day (Some a) locs) = Returned locs'"
      by simp
    from Cons.IH [OF this] True show ?thesis
      by (auto simp: update_conv' dom_update)
  next
    case False
    with Cons.prems have "stamp (Inr a) dates locs = Returned locs'" by simp
    from Cons.IH [OF this] False show ?thesis by auto
  qed
qed

lemma stamp_fixed:
  "\<forall>d \<in> set dates. d \<in> fst ` set locs \<longrightarrow> map_of locs d = Some (Some a) \<Longrightarrow>
     stamp (Inr a) dates locs = Returned locs"
  by (induction dates arbitrary: locs) (auto simp: update_triv)

lemma stamp_idem:
  assumes "stamp r dates locs = Returned locs'"
  shows "stamp r dates locs' = Returned locs'"
proof (cases r)
  case (Inl e)
  with assms have "set dates \<inter> fst ` set locs = {}" and "locs' = locs"
    by (simp_all add: stamp_Inl split: if_splits)
  with Inl show ?thesis by (simp add: stamp_Inl)
next
  case (Inr a)
  have keys: "fst ` set locs' = fst ` set locs"
    using stamp_keys [of r dates locs] assms by (metis list.set_map state_of.simps(1))
  show ?thesis
    unfolding Inr
    by (rule stamp_fixed) (use assms Inr keys stamp_map_of [of a dates locs locs'] in auto)
qed

section \<open>Dates of a year\<close>

lemma date_ymd_jan1:
  "1 \<le> y \<Longrightarrow> y \<le> 9999 \<Longrightarrow> date_ymd y 1 1 = Inr (days_before_year y + 1)"
  by (simp add: date_ymd_def fits_c_int_def days_in_month_def days_before_month_def DAYS_IN_MONTH_def)

lemma div_pred:
  assumes "(0::int) < k"
  shows "y div k = (y - 1) div k + (if y mod k = 0 then 1 else 0)"
proof -
  define q r where "q = y div k" and "r = y mod k"
  have y: "y = r + k * q" by (simp add: q_def r_def)
  have r: "0 \<le> r" "r < k" using assms by (simp_all add: r_def)
  show ?thesis
  proof (cases "r = 0")
    case True
    have "y - 1 = (k - 1) + k * (q - 1)" using y True by (simp add: algebra_simps)
    then have "(y - 1) div k = (q - 1) + (k - 1) div k"
      using assms by (simp only: div_mult_self2)
    also have "(k - 1) div k = 0" using assms by (simp add: div_pos_pos_trivial)
    finally show ?thesis using True by (simp add: q_def r_def)
  next
    case False
    have "y - 1 = (r - 1) + k * q" using y by simp
    then have "(y - 1) div k = q + (r - 1) div k"
      using assms by (simp only: div_mult_self2)
    also have "(r - 1) div k = 0" using r False by (simp add: div_pos_pos_trivial)
    finally show ?thesis using False by (simp add: q_def r_def)
  qed
qed


lemma mod_100_4: "(y::int) mod 100 = 0 \<Longrightarrow> y mod 4 = 0"
proof -
  assume "y mod 100 = 0"
  then have "100 dvd y" by (simp add: mod_eq_0_iff_dvd)
  moreover have "(4::int) dvd 100" by simp
  ultimately have "4 dvd y" by (rule dvd_trans [rotated])
  then show ?thesis by (simp add: mod_eq_0_iff_dvd)
qed

lemma mod_400_100: "(y::int) mod 400 = 0 \<Longrightarrow> y mod 100 = 0"
proof -
  assume "y mod 400 = 0"
  then have "400 dvd y" by (simp add: mod_eq_0_iff_dvd)
  moreover have "(100::int) dvd 400" by simp
  ultimately have "100 dvd y" by (rule dvd_trans [rotated])
  then show ?thesis by (simp add: mod_eq_0_iff_dvd)
qed


lemma days_before_next_year:
  "days_before_year (y + 1) = days_before_year y + (if is_leap y then 366 else 365)"
proof -
  define a b c where "a = (y - 1) div 4" and "b = (y - 1) div 100" and "c = (y - 1) div 400"
  have d4: "y div 4 = a + (if y mod 4 = 0 then 1 else 0)"
    unfolding a_def by (rule div_pred) simp
  have d100: "y div 100 = b + (if y mod 100 = 0 then 1 else 0)"
    unfolding b_def by (rule div_pred) simp
  have d400: "y div 400 = c + (if y mod 400 = 0 then 1 else 0)"
    unfolding c_def by (rule div_pred) simp
  have next_year: "days_before_year (y + 1) = y * 365 + y div 4 - y div 100 + y div 400"
    by (simp add: days_before_year_def Let_def)
  have this_year: "days_before_year y = (y - 1) * 365 + a - b + c"
    by (simp add: days_before_year_def Let_def a_def b_def c_def)
  show ?thesis
  proof (cases "y mod 4 = 0")
    case False
    with mod_100_4 [of y] mod_400_100 [of y] have "y mod 100 \<noteq> 0" "y mod 400 \<noteq> 0" by auto
    with False show ?thesis
      unfolding next_year this_year d4 d100 d400 is_leap_def by (simp add: algebra_simps)
  next
    case m4: True
    show ?thesis
    proof (cases "y mod 100 = 0")
      case False
      with mod_400_100 [of y] have "y mod 400 \<noteq> 0" by auto
      with m4 False show ?thesis
        unfolding next_year this_year d4 d100 d400 is_leap_def by (simp add: algebra_simps)
    next
      case m100: True
      show ?thesis
        using m4 m100
        unfolding next_year this_year d4 d100 d400 is_leap_def
        by (cases "y mod 400 = 0") (simp_all add: algebra_simps)
    qed
  qed
qed

lemma date_ymd_dec31:
  "1 \<le> y \<Longrightarrow> y \<le> 9999 \<Longrightarrow> date_ymd y 12 31 = Inr (days_before_year (y + 1))"
  by (simp add: date_ymd_def fits_c_int_def days_in_month_def days_before_month_def DAYS_IN_MONTH_def
      days_before_next_year)

lemma date_max_is_dec31_9999: "date_ymd 9999 12 31 = Inr date_max"
  by (simp add: date_ymd_def fits_c_int_def days_in_month_def days_before_month_def DAYS_IN_MONTH_def
      days_before_year_def is_leap_def date_max_def)

section \<open>Construction\<close>

lemma update_map_key:
  "distinct ds \<Longrightarrow> AList.update d v (map (\<lambda>k. (k, f k)) ds) =
     (if d \<in> set ds then map (\<lambda>k. (k, if k = d then v else f k)) ds
      else map (\<lambda>k. (k, f k)) ds @ [(d, v)])"
  by (induction ds) auto

lemma ddc_init_loop_map:
  "distinct ds \<Longrightarrow> set xs \<subseteq> set ds \<Longrightarrow>
   ddc_init_loop (map (\<lambda>k. (k, Some a)) xs) (map (\<lambda>k. (k, f k)) ds) =
     Inr (map (\<lambda>k. (k, if k \<in> set xs then Some (a\<lparr>distance := Some 0\<rparr>) else f k)) ds)"
proof (induction xs arbitrary: f)
  case Nil
  show ?case by simp
next
  case (Cons x xs)
  let ?v = "Some (a\<lparr>distance := Some 0\<rparr>)"
  from Cons.prems have x: "x \<in> set ds" and xs: "set xs \<subseteq> set ds" by auto
  have "ddc_init_loop (map (\<lambda>k. (k, Some a)) (x # xs)) (map (\<lambda>k. (k, f k)) ds) =
        ddc_init_loop (map (\<lambda>k. (k, Some a)) xs) (map (\<lambda>k. (k, if k = x then ?v else f k)) ds)"
    using x Cons.prems(1) by (simp add: update_map_key)
  also have "\<dots> = Inr (map (\<lambda>k. (k, if k \<in> set xs then ?v else (if k = x then ?v else f k))) ds)"
    by (rule Cons.IH [OF Cons.prems(1) xs])
  also have "\<dots> = Inr (map (\<lambda>k. (k, if k \<in> set (x # xs) then ?v else f k)) ds)"
    by auto
  finally show ?case .
qed

lemma dc_init_None:
  "dc_init table start_date end_date None =
     Inr \<lparr>location_coordinates = table,
          locations = map (\<lambda>d. (d, None)) [start_date..end_date]\<rparr>"
  by (simp add: dc_init_def dc_inclusive_date_range_def)

lemma dc_init_Some:
  "dc_coordinates table loc = Inr c \<Longrightarrow>
   dc_init table start_date end_date (Some loc) =
     Inr \<lparr>location_coordinates = table,
          locations = map (\<lambda>d. (d, Some \<lparr>city = loc, coordinates = c, distance = None\<rparr>))
                        [start_date..end_date]\<rparr>"
  by (simp add: dc_init_def dc_inclusive_date_range_def)

lemma dc_init_Some_error:
  "dc_coordinates table loc = Inl e \<Longrightarrow> dc_init table start_date end_date (Some loc) = Inl e"
  by (simp add: dc_init_def)

lemma ddc_init_ok:
  assumes "dc_coordinates table home = Inr c"
    and "date_ymd start_year 1 1 = Inr jan1" and "date_ymd end_year 12 31 = Inr dec31"
  shows "ddc_init table start_year end_year home =
     Inr \<lparr>location_coordinates = table,
          locations = map (\<lambda>d. (d, Some \<lparr>city = home, coordinates = c, distance = Some 0\<rparr>))
                        [jan1..dec31],
          home_coordinates = c\<rparr>"
proof -
  let ?a = "\<lparr>city = home, coordinates = c, distance = None\<rparr>"
  have "ddc_init_loop (map (\<lambda>k. (k, Some ?a)) [jan1..dec31]) (map (\<lambda>k. (k, Some ?a)) [jan1..dec31]) =
     Inr (map (\<lambda>k. (k, if k \<in> set [jan1..dec31] then Some (?a\<lparr>distance := Some 0\<rparr>) else Some ?a))
            [jan1..dec31])"
    by (rule ddc_init_loop_map) simp_all
  also have "\<dots> = Inr (map (\<lambda>d. (d, Some \<lparr>city = home, coordinates = c, distance = Some 0\<rparr>))
                        [jan1..dec31])"
    by simp
  finally show ?thesis
    using assms by (simp add: ddc_init_def dc_init_Some)
qed

lemma ddc_init_error:
  assumes "dc_coordinates table home = Inl e"
    and "date_ymd start_year 1 1 = Inr jan1" and "date_ymd end_year 12 31 = Inr dec31"
  shows "ddc_init table start_year end_year home = Inl e"
  using assms by (simp add: ddc_init_def dc_init_Some_error)

lemma dc_init_Some_Inr:
  assumes "dc_init table start_date end_date (Some loc) = Inr self"
  shows "\<exists>c. dc_coordinates table loc = Inr c
    \<and> self = \<lparr>location_coordinates = table,
          locations = map (\<lambda>d. (d, Some \<lparr>city = loc, coordinates = c, distance = None\<rparr>))
                        [start_date..end_date]\<rparr>"
proof (cases "dc_coordinates table loc")
  case (Inl e)
  with assms show ?thesis by (simp add: dc_init_Some_error)
next
  case (Inr c)
  with assms show ?thesis by (simp add: dc_init_Some)
qed

lemma ddc_init_Inr:
  assumes "ddc_init table start_year end_year home = Inr dself"
  shows "\<exists>h jan1 dec31.
      dc_coordinates table home = Inr h
      \<and> date_ymd start_year 1 1 = Inr jan1 \<and> date_ymd end_year 12 31 = Inr dec31
      \<and> dself = \<lparr>location_coordinates = table,
            locations =
              map (\<lambda>d. (d, Some \<lparr>city = home, coordinates = h, distance = Some 0\<rparr>))
                [jan1..dec31],
            home_coordinates = h\<rparr>"
proof -
  from assms obtain jan1 dec31 where
    jan1: "date_ymd start_year 1 1 = Inr jan1" and dec31: "date_ymd end_year 12 31 = Inr dec31"
    by (auto simp: ddc_init_def split: sum.splits)
  show ?thesis
  proof (cases "dc_coordinates table home")
    case (Inl e)
    from ddc_init_error [OF Inl jan1 dec31] assms show ?thesis by simp
  next
    case (Inr h)
    from ddc_init_ok [OF Inr jan1 dec31] assms jan1 dec31 Inr show ?thesis by simp
  qed
qed

lemma dc_init_keys:
  "dc_init table start_date end_date default_location = Inr self \<Longrightarrow>
     map fst (locations self) = [start_date..end_date]"
  by (auto simp: dc_init_def dc_inclusive_date_range_def comp_def split: option.splits sum.splits)

section \<open>Keys are never added or removed\<close>

lemma dc_set_location_keys:
  "map fst (locations (state_of (dc_set_location self c n l))) = map fst (locations self)"
proof (cases "stay_dates c n")
  case (Inl e)
  then show ?thesis by (simp add: dc_set_location_def)
next
  case (Inr dates)
  show ?thesis
    using stamp_keys [of "dc_entry (location_coordinates self) l" dates "locations self"]
    by (cases "stamp (dc_entry (location_coordinates self) l) dates (locations self)")
       (simp_all add: dc_set_location_def Inr dc_loop_stamp)
qed

lemma ddc_set_location_keys:
  "map fst (locations (state_of (ddc_set_location m self c n l))) = map fst (locations self)"
proof (cases "stay_dates c n")
  case (Inl e)
  then show ?thesis by (simp add: ddc_set_location_def)
next
  case (Inr dates)
  show ?thesis
  proof (cases "ddc_home_distance m self l")
    case (Inl e)
    then show ?thesis by (simp add: ddc_set_location_def Inr)
  next
    case dv: (Inr dv)
    show ?thesis
      using stamp_keys [of "ddc_entry (location_coordinates self) l dv" dates "locations self"]
      by (cases "stamp (ddc_entry (location_coordinates self) l dv) dates (locations self)")
         (simp_all add: ddc_set_location_def Inr dv ddc_loop_stamp)
  qed
qed

lemma dc_set_locations_keys:
  "map fst (locations (state_of (dc_set_locations self stays))) = map fst (locations self)"
proof (induction stays arbitrary: self)
  case Nil
  show ?case by simp
next
  case (Cons stay stays)
  obtain c n l where stay: "stay = (c, n, l)" by (cases stay) auto
  show ?case
    using Cons.IH dc_set_location_keys [of self c n l]
    by (cases "dc_set_location self c n l") (simp_all add: stay)
qed

lemma ddc_set_locations_keys:
  "map fst (locations (state_of (ddc_set_locations m self stays))) = map fst (locations self)"
proof (induction stays arbitrary: self)
  case Nil
  show ?case by simp
next
  case (Cons stay stays)
  obtain c n l where stay: "stay = (c, n, l)" by (cases stay) auto
  show ?case
    using Cons.IH ddc_set_location_keys [of m self c n l]
    by (cases "ddc_set_location m self c n l") (simp_all add: stay)
qed

lemma keys_set: "fst ` set xs = set (map fst xs)"
  by simp

section \<open>What one call does\<close>

lemma dc_set_location_stamp:
  "stay_dates c n = Inr dates \<Longrightarrow>
   dc_set_location self c n l =
     map_outcome (\<lambda>locs. self\<lparr>locations := locs\<rparr>)
       (stamp (dc_entry (location_coordinates self) l) dates (locations self))"
  by (simp add: dc_set_location_def dc_loop_stamp)

lemma ddc_set_location_stamp:
  "stay_dates c n = Inr dates \<Longrightarrow> ddc_home_distance m self l = Inr dv \<Longrightarrow>
   ddc_set_location m self c n l =
     map_outcome (\<lambda>locs. self\<lparr>locations := locs\<rparr>)
       (stamp (ddc_entry (location_coordinates self) l dv) dates (locations self))"
  by (simp add: ddc_set_location_def ddc_loop_stamp)

lemma ddc_home_distance_locations [simp]:
  "ddc_home_distance m (self\<lparr>locations := locs\<rparr>) l = ddc_home_distance m self l"
  by (simp add: ddc_home_distance_def cong: sum.case_cong)

lemma ddc_home_distance_resolves:
  "ddc_home_distance m self l = Inr dv \<Longrightarrow> \<exists>c. dc_coordinates (location_coordinates self) l = Inr c"
  by (auto simp: ddc_home_distance_def split: sum.splits)

lemma stay_dates_Inr:
  "stay_dates c n = Inr dates \<longleftrightarrow> (\<exists>fm. first_morning c n = Inr fm \<and> dates = [fm..c])"
  by (auto simp: stay_dates_def dc_inclusive_date_range_def split: sum.splits)

text \<open>An exception leaves the calendar as it was before the call.\<close>

lemma dc_set_location_Raised:
  "dc_set_location self c n l = Raised e s' \<Longrightarrow> s' = self"
proof (cases "stay_dates c n")
  case (Inl e')
  assume "dc_set_location self c n l = Raised e s'"
  with Inl show ?thesis by (simp add: dc_set_location_def)
next
  case (Inr dates)
  assume r: "dc_set_location self c n l = Raised e s'"
  show ?thesis
  proof (cases "stamp (dc_entry (location_coordinates self) l) dates (locations self)")
    case (Returned locs')
    with r Inr show ?thesis by (simp add: dc_set_location_stamp)
  next
    case (Raised e' locs')
    with stamp_Raised_unchanged [OF Raised] r Inr show ?thesis
      by (auto simp: dc_set_location_stamp)
  qed
qed

lemma ddc_set_location_Raised:
  "ddc_set_location m self c n l = Raised e s' \<Longrightarrow> s' = self"
proof (cases "stay_dates c n")
  case (Inl e')
  assume "ddc_set_location m self c n l = Raised e s'"
  with Inl show ?thesis by (simp add: ddc_set_location_def)
next
  case (Inr dates)
  assume r: "ddc_set_location m self c n l = Raised e s'"
  show ?thesis
  proof (cases "ddc_home_distance m self l")
    case (Inl e')
    with r Inr show ?thesis by (simp add: ddc_set_location_def)
  next
    case dv: (Inr dv)
    show ?thesis
    proof (cases "stamp (ddc_entry (location_coordinates self) l dv) dates (locations self)")
      case (Returned locs')
      with r Inr dv show ?thesis by (simp add: ddc_set_location_stamp)
    next
      case (Raised e' locs')
      with stamp_Raised_unchanged [OF Raised] r Inr dv show ?thesis
        by (auto simp: ddc_set_location_stamp)
    qed
  qed
qed

lemma stamp_Returned_frame:
  assumes "stamp r dates locs = Returned locs'"
  shows "d \<notin> set dates \<or> d \<notin> fst ` set locs \<Longrightarrow> map_of locs' d = map_of locs d"
proof (cases r)
  case (Inl e)
  with assms show ?thesis by (simp add: stamp_Inl split: if_splits)
next
  case (Inr a)
  assume "d \<notin> set dates \<or> d \<notin> fst ` set locs"
  with stamp_map_of [of a dates locs locs' d] assms Inr show ?thesis by auto
qed

lemma stamp_state_frame:
  "d \<notin> set dates \<or> d \<notin> fst ` set locs \<Longrightarrow>
     map_of (state_of (stamp r dates locs)) d = map_of locs d"
proof (cases "stamp r dates locs")
  case (Returned locs')
  assume "d \<notin> set dates \<or> d \<notin> fst ` set locs"
  with stamp_Returned_frame [OF Returned] Returned show ?thesis by simp
next
  case (Raised e locs')
  with stamp_Raised_unchanged [OF Raised] show ?thesis by simp
qed

lemma state_of_map_outcome: "state_of (map_outcome f x) = f (state_of x)"
  by (cases x) simp_all

lemma first_morning_Inr:
  "first_morning c n = Inr fm \<Longrightarrow> fm = c - (n - 1)"
  by (auto simp: first_morning_def date_sub_days_def Let_def split: if_splits)

text \<open>Outside the range of \<^verbatim>\<open>date\<close> there is no first morning, and both methods raise.\<close>

lemma first_morning_overflow:
  "checkout_date - (nights - 1) < date_min \<or> date_max < checkout_date - (nights - 1) \<Longrightarrow>
     first_morning checkout_date nights = Inl OverflowError
     \<and> dc_set_location self checkout_date nights location = Raised OverflowError self
     \<and> ddc_set_location m dself checkout_date nights location = Raised OverflowError dself"
  by (auto simp: first_morning_def date_sub_days_def stay_dates_def dc_set_location_def
      ddc_set_location_def)

lemma dc_set_location_frame:
  "\<not> (c - (n - 1) \<le> d \<and> d \<le> c \<and> d \<in> fst ` set (locations self)) \<Longrightarrow>
     map_of (locations (state_of (dc_set_location self c n l))) d = map_of (locations self) d"
proof (cases "first_morning c n")
  case (Inl e)
  then show ?thesis by (simp add: dc_set_location_def stay_dates_def)
next
  case (Inr fm)
  assume d: "\<not> (c - (n - 1) \<le> d \<and> d \<le> c \<and> d \<in> fst ` set (locations self))"
  have sd: "stay_dates c n = Inr [fm..c]" using Inr by (simp add: stay_dates_Inr)
  from d first_morning_Inr [OF Inr] show ?thesis
    by (simp add: dc_set_location_stamp [OF sd] state_of_map_outcome stamp_state_frame)
qed

lemma ddc_set_location_frame:
  "\<not> (c - (n - 1) \<le> d \<and> d \<le> c \<and> d \<in> fst ` set (locations self)) \<Longrightarrow>
     map_of (locations (state_of (ddc_set_location m self c n l))) d = map_of (locations self) d"
proof (cases "first_morning c n")
  case (Inl e)
  then show ?thesis by (simp add: ddc_set_location_def stay_dates_def)
next
  case (Inr fm)
  assume d: "\<not> (c - (n - 1) \<le> d \<and> d \<le> c \<and> d \<in> fst ` set (locations self))"
  have sd: "stay_dates c n = Inr [fm..c]" using Inr by (simp add: stay_dates_Inr)
  show ?thesis
  proof (cases "ddc_home_distance m self l")
    case (Inl e)
    then show ?thesis by (simp add: ddc_set_location_def sd)
  next
    case dv: (Inr dv)
    from d first_morning_Inr [OF Inr] show ?thesis
      by (simp add: ddc_set_location_stamp [OF sd dv] state_of_map_outcome stamp_state_frame)
  qed
qed

lemma dc_set_location_ok:
  assumes "first_morning c n = Inr fm"
    and "dc_coordinates (location_coordinates self) l = Inr crd"
  shows "\<exists>locs'. dc_set_location self c n l = Returned (self\<lparr>locations := locs'\<rparr>)
     \<and> (\<forall>d. map_of locs' d =
           (if fm \<le> d \<and> d \<le> c \<and> d \<in> fst ` set (locations self)
            then Some (Some \<lparr>city = l, coordinates = crd, distance = None\<rparr>)
            else map_of (locations self) d))"
proof -
  let ?a = "\<lparr>city = l, coordinates = crd, distance = None\<rparr>"
  have sd: "stay_dates c n = Inr [fm..c]" using assms(1) by (simp add: stay_dates_Inr)
  obtain locs' where locs': "stamp (Inr ?a) [fm..c] (locations self) = Returned locs'"
    using stamp_Inr_Returned by blast
  have "dc_set_location self c n l = Returned (self\<lparr>locations := locs'\<rparr>)"
    using assms(2) locs' by (simp add: dc_set_location_stamp [OF sd] dc_entry_def)
  moreover have "\<forall>d. map_of locs' d =
      (if fm \<le> d \<and> d \<le> c \<and> d \<in> fst ` set (locations self)
       then Some (Some ?a) else map_of (locations self) d)"
    using stamp_map_of [OF locs'] by simp
  ultimately show ?thesis by blast
qed

lemma ddc_set_location_ok:
  assumes "first_morning c n = Inr fm"
    and "ddc_home_distance m self l = Inr dv"
    and "dc_coordinates (location_coordinates self) l = Inr crd"
  shows "\<exists>locs'. ddc_set_location m self c n l = Returned (self\<lparr>locations := locs'\<rparr>)
     \<and> (\<forall>d. map_of locs' d =
           (if fm \<le> d \<and> d \<le> c \<and> d \<in> fst ` set (locations self)
            then Some (Some \<lparr>city = l, coordinates = crd, distance = Some dv\<rparr>)
            else map_of (locations self) d))"
proof -
  let ?a = "\<lparr>city = l, coordinates = crd, distance = Some dv\<rparr>"
  have sd: "stay_dates c n = Inr [fm..c]" using assms(1) by (simp add: stay_dates_Inr)
  obtain locs' where locs': "stamp (Inr ?a) [fm..c] (locations self) = Returned locs'"
    using stamp_Inr_Returned by blast
  have "ddc_set_location m self c n l = Returned (self\<lparr>locations := locs'\<rparr>)"
    using assms(3) locs' by (simp add: ddc_set_location_stamp [OF sd assms(2)] ddc_entry_def)
  moreover have "\<forall>d. map_of locs' d =
      (if fm \<le> d \<and> d \<le> c \<and> d \<in> fst ` set (locations self)
       then Some (Some ?a) else map_of (locations self) d)"
    using stamp_map_of [OF locs'] by simp
  ultimately show ?thesis by blast
qed

lemma ddc_set_location_Returned:
  assumes "ddc_set_location m self c n l = Returned s'"
  shows "\<exists>fm dv. first_morning c n = Inr fm \<and> ddc_home_distance m self l = Inr dv"
  using assms
  by (auto simp: ddc_set_location_def stay_dates_def split: sum.splits)

lemma ddc_loop_stores:
  assumes "ddc_set_location_loop table l x dates locs = Returned locs'"
    and "d \<in> set dates" and "d \<in> fst ` set locs"
  shows "\<exists>a. map_of locs' d = Some (Some a) \<and> distance a = Some x"
proof (cases "dc_coordinates table l")
  case (Inl e)
  with assms show ?thesis
    by (auto simp: ddc_loop_stamp ddc_entry_def stamp_Inl split: if_splits)
next
  case (Inr crd)
  with assms(1) have "stamp (Inr \<lparr>city = l, coordinates = crd, distance = Some x\<rparr>) dates locs
      = Returned locs'"
    by (simp add: ddc_loop_stamp ddc_entry_def)
  from stamp_map_of [OF this, of d] assms(2,3) show ?thesis by simp
qed

lemma ddc_set_location_loop_eq:
  "first_morning c n = Inr fm \<Longrightarrow> ddc_home_distance m self l = Inr dv \<Longrightarrow>
   ddc_set_location m self c n l =
     map_outcome (\<lambda>locs. self\<lparr>locations := locs\<rparr>)
       (ddc_set_location_loop (location_coordinates self) l dv [fm..c] (locations self))"
  by (simp add: ddc_set_location_def stay_dates_def dc_inclusive_date_range_def)

lemma ddc_set_location_Returned_entries:
  assumes "ddc_set_location m self c n l = Returned s'"
  shows "\<exists>fm crd dv.
     first_morning c n = Inr fm
     \<and> dc_coordinates (location_coordinates self) l = Inr crd
     \<and> ddc_home_distance m self l = Inr dv
     \<and> (\<forall>d. fm \<le> d \<and> d \<le> c \<and> d \<in> fst ` set (locations self) \<longrightarrow>
           map_of (locations s') d
             = Some (Some \<lparr>city = l, coordinates = crd, distance = Some dv\<rparr>))"
proof -
  from ddc_set_location_Returned [OF assms] obtain fm dv where
    fm: "first_morning c n = Inr fm" and dv: "ddc_home_distance m self l = Inr dv"
    by blast
  from ddc_home_distance_resolves [OF dv] obtain crd where
    crd: "dc_coordinates (location_coordinates self) l = Inr crd"
    by blast
  from ddc_set_location_ok [OF fm dv crd] obtain locs' where
    r: "ddc_set_location m self c n l = Returned (self\<lparr>locations := locs'\<rparr>)"
    and m: "\<And>d. map_of locs' d =
           (if fm \<le> d \<and> d \<le> c \<and> d \<in> fst ` set (locations self)
            then Some (Some \<lparr>city = l, coordinates = crd, distance = Some dv\<rparr>)
            else map_of (locations self) d)"
    by blast
  from r assms have "locations s' = locs'" by simp
  then have "\<forall>d. fm \<le> d \<and> d \<le> c \<and> d \<in> fst ` set (locations self) \<longrightarrow>
           map_of (locations s') d
             = Some (Some \<lparr>city = l, coordinates = crd, distance = Some dv\<rparr>)"
    by (simp add: m)
  with fm dv crd show ?thesis by blast
qed

section \<open>The haversine formula in exact arithmetic\<close>

text \<open>
  This section is about \<^const>\<open>exact_math\<close> only. With real arithmetic the quantity \<open>a\<close> of
  the formula always lies in \<open>[0, 1]\<close>, whatever the four angles are, so neither square
  root is taken of a negative number: \<^verbatim>\<open>_home_distance\<close> then returns the reference
  distance of the specification, which is never negative and is \<open>0\<close> from home to home. For
  two antipodal points \<open>a\<close> is exactly \<open>1\<close>, the edge of the domain of \<^verbatim>\<open>math.sqrt(1 - a)\<close>.
  That \<open>a \<le> 1\<close> is a fact of the real numbers and not of the method, which does not clamp
  \<open>a\<close>: in an arithmetic that rounds, the sum can come out above \<open>1\<close>, and then the second
  square root raises (lemma \<open>home_distance_unclamped\<close> below, for every arithmetic).
\<close>

lemma exact_math_fields:
  "math_pi exact_math = pi"
  "math_sin exact_math x = Inr (sin x)"
  "math_cos exact_math x = Inr (cos x)"
  "math_sqrt exact_math x = (if x < 0 then Inl ValueError else Inr (sqrt x))"
  "math_atan2 exact_math = atan2"
  "float_pow exact_math x n = Inr (x ^ n)"
  "float_of exact_math = of_rat"
  by (simp_all add: exact_math_def)

lemma exact_constants:
  "DEG_TO_RAD exact_math = pi / 180" "EARTH_MEAN_RADIUS exact_math = 3958.7613"
  by (simp_all add: DEG_TO_RAD_def EARTH_MEAN_RADIUS_def exact_math_fields of_rat_divide)

lemma hav_identity:
  "(sin ((y - x) / 2))\<^sup>2 + cos x * cos y = (cos ((x + y) / 2))\<^sup>2" for x y :: real
proof -
  have e: "2 * ((y - x) / 2) = y - x" "2 * ((x + y) / 2) = x + y"
    by simp_all
  have s: "(sin ((y - x) / 2))\<^sup>2 = (1 - cos (y - x)) / 2"
    using cos_double_sin [of "(y - x) / 2"] unfolding e by simp
  have c: "(cos ((x + y) / 2))\<^sup>2 = (1 + cos (x + y)) / 2"
    using cos_double_cos [of "(x + y) / 2"] unfolding e by simp
  show ?thesis
    unfolding s c by (simp add: cos_add cos_diff field_simps)
qed

lemma haversine_a_bounds:
  fixes x y l :: real
  defines "a \<equiv> (sin ((y - x) / 2))\<^sup>2 + cos x * cos y * (sin (l / 2))\<^sup>2"
  shows "0 \<le> a \<and> a \<le> 1"
proof -
  define s t q where "s = (sin ((y - x) / 2))\<^sup>2" and "t = (sin (l / 2))\<^sup>2"
    and "q = (cos ((x + y) / 2))\<^sup>2"
  have s: "0 \<le> s" "s \<le> 1" and t: "0 \<le> t" "t \<le> 1" and q: "0 \<le> q" "q \<le> 1"
    by (simp_all add: s_def t_def q_def abs_square_le_1)
  have p: "cos x * cos y = q - s"
    using hav_identity [of y x] by (simp add: s_def q_def)
  have a: "a = (1 - t) * s + t * q"
    unfolding a_def p s_def [symmetric] t_def [symmetric] by (simp add: algebra_simps)
  have "0 \<le> (1 - t) * s" "0 \<le> t * q" using s t q by simp_all
  moreover have "(1 - t) * s \<le> (1 - t) * 1" using s t by (intro mult_left_mono) simp_all
  moreover have "t * q \<le> t * 1" using q t by (intro mult_left_mono) simp_all
  ultimately show ?thesis unfolding a by simp
qed

lemma spec_haversine_a_bounds:
  "0 \<le> spec_haversine_a home dest \<and> spec_haversine_a home dest \<le> 1"
  unfolding spec_haversine_a_def left_diff_distrib by (rule haversine_a_bounds)

lemma antipodal_a: "spec_haversine_a (lat, lon) (- lat, lon + 180) = 1"
proof -
  have "spec_haversine_a (lat, lon) (- lat, lon + 180)
      = (sin (lat * (pi / 180)))\<^sup>2 + (cos (lat * (pi / 180)))\<^sup>2 * (sin (pi / 2))\<^sup>2"
    by (simp add: spec_haversine_a_def power2_eq_square algebra_simps)
  then show ?thesis by simp
qed

lemma exact_haversine_a:
  "haversine_a exact_math phi_1 phi_2 delta_phi delta_lambda
     = Inr ((sin (delta_phi / 2))\<^sup>2 + cos phi_1 * cos phi_2 * (sin (delta_lambda / 2))\<^sup>2)"
  by (simp add: haversine_a_def exact_math_fields)

lemma exact_haversine_distance:
  "0 \<le> a \<Longrightarrow> a \<le> 1 \<Longrightarrow>
     haversine_distance exact_math a = Inr (2 * 3958.7613 * atan2 (sqrt a) (sqrt (1 - a)))"
  by (simp add: haversine_distance_def exact_math_fields exact_constants)

lemma home_distance_eq:
  assumes "home_coordinates self = JCoords home_lat home_lon"
    and "dc_coordinates (location_coordinates self) location = Inr (JCoords loc_lat loc_lon)"
  shows "ddc_home_distance exact_math self location
    = Inr (spec_haversine_distance (home_lat, home_lon) (loc_lat, loc_lon))"
proof -
  let ?a = "spec_haversine_a (home_lat, home_lon) (loc_lat, loc_lon)"
  have a: "haversine_a exact_math (home_lat * DEG_TO_RAD exact_math)
      (loc_lat * DEG_TO_RAD exact_math) ((loc_lat - home_lat) * DEG_TO_RAD exact_math)
      ((loc_lon - home_lon) * DEG_TO_RAD exact_math) = Inr ?a"
    by (simp add: exact_haversine_a spec_haversine_a_def exact_constants)
  have d: "haversine_distance exact_math ?a
      = Inr (spec_haversine_distance (home_lat, home_lon) (loc_lat, loc_lon))"
    using spec_haversine_a_bounds [of "(home_lat, home_lon)" "(loc_lat, loc_lon)"]
    by (simp add: exact_haversine_distance spec_haversine_distance_def)
  show ?thesis
    using assms by (simp add: ddc_home_distance_def a d)
qed

lemma atan2_nonneg: "0 \<le> y \<Longrightarrow> 0 \<le> atan2 y x"
proof -
  assume y: "0 \<le> y"
  have "- (pi / 2) < arctan (y / x)" by (rule arctan_lbound)
  then have "0 \<le> arctan (y / x) + pi" using pi_gt_zero by linarith
  moreover have "0 < x \<Longrightarrow> 0 \<le> arctan (y / x)" using y by (simp add: zero_le_arctan_iff)
  ultimately show ?thesis using y by (simp add: atan2_def)
qed

lemma spec_haversine_distance_nonneg: "0 \<le> spec_haversine_distance home dest"
  using spec_haversine_a_bounds [of home dest]
  by (auto simp: spec_haversine_distance_def intro!: mult_nonneg_nonneg atan2_nonneg)

lemma home_distance_nonneg:
  assumes "ddc_home_distance exact_math self location = Inr distance_value"
  shows "0 \<le> distance_value"
proof -
  from assms obtain home_lat home_lon loc_lat loc_lon where
    "home_coordinates self = JCoords home_lat home_lon"
    "dc_coordinates (location_coordinates self) location = Inr (JCoords loc_lat loc_lon)"
    by (auto simp: ddc_home_distance_def split: sum.splits json.splits)
  from home_distance_eq [OF this] assms show ?thesis
    by (simp add: spec_haversine_distance_nonneg)
qed

lemma home_distance_home_zero:
  assumes "home_coordinates self = JCoords home_lat home_lon"
    and "dc_coordinates (location_coordinates self) location = Inr (JCoords home_lat home_lon)"
  shows "ddc_home_distance exact_math self location = Inr 0"
  using home_distance_eq [OF assms]
  by (simp add: spec_haversine_distance_def spec_haversine_a_def atan2_def)

lemma home_distance_quarter_circle:
  "spec_haversine_distance (0, 0) (0, 90) = pi / 2 * 3958.7613"
proof -
  have "spec_haversine_a (0, 0) (0, 90) = (sin (pi / 4))\<^sup>2"
    by (simp add: spec_haversine_a_def)
  also have "\<dots> = 1 / 2"
    by (simp add: sin_45 power2_eq_square)
  finally have a: "spec_haversine_a (0, 0) (0, 90) = 1 / 2" .
  have "atan2 (sqrt (1 / 2)) (sqrt (1 / 2)) = arctan 1"
    by (simp add: atan2_def)
  then show ?thesis
    by (simp add: spec_haversine_distance_def a arctan_one)
qed

text \<open>
  In every arithmetic: when the sum \<open>a\<close> has a square root and \<open>1 - a\<close> has none,
  \<^verbatim>\<open>_home_distance\<close> raises what \<^verbatim>\<open>math.sqrt\<close> raised, and with it \<^verbatim>\<open>set_location\<close>.
\<close>

lemma home_distance_unclamped:
  assumes "home_coordinates self = JCoords home_lat home_lon"
    and "dc_coordinates (location_coordinates self) location = Inr (JCoords loc_lat loc_lon)"
    and "haversine_a m (home_lat * DEG_TO_RAD m) (loc_lat * DEG_TO_RAD m)
           ((loc_lat - home_lat) * DEG_TO_RAD m) ((loc_lon - home_lon) * DEG_TO_RAD m) = Inr a"
    and "math_sqrt m a = Inr sqrt_a"
    and "math_sqrt m (float_of m 1 - a) = Inl e"
  shows "ddc_home_distance m self location = Inl e"
  using assms by (simp add: ddc_home_distance_def haversine_distance_def)

section \<open>Concrete instances\<close>

lemma example_2024: "date_ymd 2024 1 1 = Inr 738886" "date_ymd 2024 12 31 = Inr 739251"
  by (simp_all add: date_ymd_def fits_c_int_def days_in_month_def days_before_month_def
      DAYS_IN_MONTH_def days_before_year_def is_leap_def)

lemma example_B: "dc_coordinates example_table ''B'' = Inr (JCoords 10 20)"
  by (simp add: dc_coordinates_def example_table_def)

lemma example_East: "dc_coordinates example_table ''A/East'' = Inr (JCoords 0 90)"
  by (simp add: dc_coordinates_def example_table_def)

lemma example_A: "dc_coordinates example_table ''A'' = Inr (JDict [(''Origin'', JCoords 0 0), (''East'', JCoords 0 90)])"
  by (simp add: dc_coordinates_def example_table_def)

lemma example_missing:
  "reduce_getitem (split CHR ''/'' ''A/North'') example_table = Inl KeyError"
  by (simp add: example_table_def)

lemma example_North:
  "dc_coordinates example_table ''A/North'' = Inl (SystemExit (not_found_output ''A/North''))"
  by (simp add: dc_coordinates_def example_table_def)

lemma example_past_leaf: "dc_coordinates example_table ''B/C'' = Inl TypeError"
  by (simp add: dc_coordinates_def example_table_def)

lemma example_calendar_init: "dc_init example_table 10 12 None = Inr example_calendar"
proof -
  have "[10..12] = [10, 11, 12 :: int]"
    by (simp add: upto_rec1)
  then show ?thesis
    by (simp add: dc_init_None example_calendar_def)
qed

lemma example_distance_calendar_fields:
  "home_coordinates example_distance_calendar = JCoords 0 0"
  "location_coordinates example_distance_calendar = example_table"
  "locations example_distance_calendar = [(10, None), (11, None), (12, None)]"
  by (simp_all add: example_distance_calendar_def)

lemma example_calendar_fields:
  "location_coordinates example_calendar = example_table"
  "locations example_calendar = [(10, None), (11, None), (12, None)]"
  by (simp_all add: example_calendar_def)

lemma example_home_distance_East:
  "ddc_home_distance exact_math example_distance_calendar ''A/East'' = Inr (pi / 2 * 3958.7613)"
  using home_distance_eq [of example_distance_calendar 0 0 "''A/East''" 0 90]
  by (simp add: example_distance_calendar_fields example_East home_distance_quarter_circle)

lemma example_first_morning: "first_morning 13 3 = Inr 11"
  by (simp add: first_morning_def date_sub_days_def date_min_def date_max_def)

section \<open>When a call raises\<close>

lemma first_morning_cases:
  "first_morning c n =
     (if date_min \<le> c - (n - 1) \<and> c - (n - 1) \<le> date_max then Inr (c - (n - 1))
      else Inl OverflowError)"
  by (simp add: first_morning_def date_sub_days_def Let_def)

lemma stay_dates_cases:
  "stay_dates c n =
     (if date_min \<le> c - (n - 1) \<and> c - (n - 1) \<le> date_max then Inr [c - (n - 1)..c]
      else Inl OverflowError)"
  by (simp add: stay_dates_def first_morning_cases dc_inclusive_date_range_def)

lemma date_ymd_jan1_cases:
  "date_ymd y 1 1 =
     (if 1 \<le> y \<and> y \<le> 9999 then Inr (days_before_year y + 1)
      else if fits_c_int y then Inl ValueError else Inl OverflowError)"
  by (simp add: date_ymd_jan1) (simp add: date_ymd_def fits_c_int_def)

lemma date_ymd_dec31_cases:
  "date_ymd y 12 31 =
     (if 1 \<le> y \<and> y \<le> 9999 then Inr (days_before_year (y + 1))
      else if fits_c_int y then Inl ValueError else Inl OverflowError)"
  by (simp add: date_ymd_dec31) (simp add: date_ymd_def fits_c_int_def)

lemma ddc_init_unresolved:
  assumes "dc_coordinates table home = Inl e"
  shows "ddc_init table start_year end_year home =
     (if 1 \<le> start_year \<and> start_year \<le> 9999 then
        (if 1 \<le> end_year \<and> end_year \<le> 9999 then Inl e
         else if fits_c_int end_year then Inl ValueError else Inl OverflowError)
      else if fits_c_int start_year then Inl ValueError else Inl OverflowError)"
  using assms
  by (simp add: ddc_init_def date_ymd_jan1_cases date_ymd_dec31_cases dc_init_Some_error)

lemma dc_set_location_unresolved:
  assumes "dc_coordinates (location_coordinates self) l = Inl e"
  shows "dc_set_location self c n l =
     (if date_min \<le> c - (n - 1) \<and> c - (n - 1) \<le> date_max then
        (if {c - (n - 1)..c} \<inter> fst ` set (locations self) = {} then Returned self
         else Raised e self)
      else Raised OverflowError self)"
  using assms
  by (simp add: dc_set_location_def stay_dates_cases dc_loop_stamp dc_entry_def stamp_Inl)

lemma ddc_home_distance_unresolved:
  "dc_coordinates (location_coordinates self) l = Inl e \<Longrightarrow> ddc_home_distance m self l = Inl e"
  by (simp add: ddc_home_distance_def)

lemma ddc_set_location_unresolved:
  assumes "dc_coordinates (location_coordinates self) l = Inl e"
  shows "ddc_set_location m self c n l =
     (if date_min \<le> c - (n - 1) \<and> c - (n - 1) \<le> date_max then Raised e self
      else Raised OverflowError self)"
  using assms
  by (simp add: ddc_set_location_def stay_dates_cases ddc_home_distance_unresolved)

section \<open>Calls of \<^verbatim>\<open>_home_distance\<close>\<close>

text \<open>The loop leaves the log as it is, and without the log it is the loop above.\<close>

lemma ddc_loop_traced:
  "ddc_set_location_loop_traced table l dv dates locs calls
     = (ddc_set_location_loop table l dv dates locs, calls)"
  by (induction dates arbitrary: locs) (auto split: sum.splits)

lemma ddc_set_location_traced_fst:
  "fst (ddc_set_location_traced m self c n l calls) = ddc_set_location m self c n l"
  by (simp add: ddc_set_location_traced_def ddc_set_location_def ddc_home_distance_traced_def
      ddc_loop_traced split: sum.splits)

lemma ddc_set_location_traced_snd:
  "snd (ddc_set_location_traced m self c n l calls) =
     (case first_morning c n of Inl e \<Rightarrow> calls | Inr fm \<Rightarrow> calls @ [l])"
  by (simp add: ddc_set_location_traced_def stay_dates_def ddc_home_distance_traced_def
      ddc_loop_traced split: sum.splits)

lemma ddc_set_location_traced_overflow:
  "first_morning c n = Inl e \<Longrightarrow>
     ddc_set_location_traced m self c n l calls = (Raised e self, calls)"
  by (simp add: ddc_set_location_traced_def stay_dates_def)

lemma ddc_set_location_traced_raises:
  "first_morning c n = Inr fm \<Longrightarrow> ddc_home_distance m self l = Inl e \<Longrightarrow>
     ddc_set_location_traced m self c n l calls = (Raised e self, calls @ [l])"
  by (simp add: ddc_set_location_traced_def stay_dates_def ddc_home_distance_traced_def)

lemma ddc_set_location_traced_ok:
  assumes "first_morning c n = Inr fm"
    and "ddc_home_distance m self l = Inr dv"
  shows "\<exists>crd locs'.
     dc_coordinates (location_coordinates self) l = Inr crd
     \<and> ddc_set_location_traced m self c n l calls
         = (Returned (self\<lparr>locations := locs'\<rparr>), calls @ [l])
     \<and> (\<forall>d. map_of locs' d =
           (if fm \<le> d \<and> d \<le> c \<and> d \<in> fst ` set (locations self)
            then Some (Some \<lparr>city = l, coordinates = crd, distance = Some dv\<rparr>)
            else map_of (locations self) d))"
proof -
  from ddc_home_distance_resolves [OF assms(2)] obtain crd where
    crd: "dc_coordinates (location_coordinates self) l = Inr crd"
    by blast
  from ddc_set_location_ok [OF assms crd] obtain locs' where
    r: "ddc_set_location m self c n l = Returned (self\<lparr>locations := locs'\<rparr>)"
    and mp: "\<forall>d. map_of locs' d =
           (if fm \<le> d \<and> d \<le> c \<and> d \<in> fst ` set (locations self)
            then Some (Some \<lparr>city = l, coordinates = crd, distance = Some dv\<rparr>)
            else map_of (locations self) d)"
    by blast
  have "ddc_set_location_traced m self c n l calls
      = (Returned (self\<lparr>locations := locs'\<rparr>), calls @ [l])"
    using ddc_set_location_traced_fst [of m self c n l calls]
      ddc_set_location_traced_snd [of m self c n l calls] r assms(1)
    by (cases "ddc_set_location_traced m self c n l calls") simp
  with crd mp show ?thesis by blast
qed

section \<open>Claims\<close>

text \<open>
  Claim C1. A calendar constructed from \<open>start_date\<close> and \<open>end_date\<close> has exactly the dates
  of \<open>[start_date, end_date]\<close> as its keys, and a distance calendar exactly the dates from
  1 January of \<open>start_year\<close> to 31 December of \<open>end_year\<close>. One \<^verbatim>\<open>set_location\<close> call, and any
  run of such calls, leaves that key set as it is, whether the calls return or raise: keys
  are neither added nor removed. (The statement does not need \<open>start_date \<le> end_date\<close>: both
  sides are empty otherwise.)
\<close>

theorem key_set_fixed_at_construction:
  "(dc_init table start_date end_date default_location = Inr self \<longrightarrow>
      fst ` set (locations self) = {start_date..end_date} \<and>
      fst ` set (locations (state_of (dc_set_location self checkout_date nights location)))
        = {start_date..end_date} \<and>
      fst ` set (locations (state_of (dc_set_locations self stays))) = {start_date..end_date})
   \<and> (ddc_init table start_year end_year home_location = Inr dself \<longrightarrow>
      (\<exists>jan1 dec31.
         date_ymd start_year 1 1 = Inr jan1 \<and> date_ymd end_year 12 31 = Inr dec31 \<and>
         fst ` set (locations dself) = {jan1..dec31} \<and>
         fst ` set (locations (state_of (ddc_set_location m dself checkout_date nights location)))
           = {jan1..dec31} \<and>
         fst ` set (locations (state_of (ddc_set_locations m dself stays))) = {jan1..dec31}))"
proof (intro conjI impI)
  assume init: "dc_init table start_date end_date default_location = Inr self"
  from dc_init_keys [OF init]
  show "fst ` set (locations self) = {start_date..end_date}"
    by (simp only: keys_set) simp
  from dc_init_keys [OF init]
  show "fst ` set (locations (state_of (dc_set_location self checkout_date nights location)))
        = {start_date..end_date}"
    by (simp only: keys_set dc_set_location_keys) simp
  from dc_init_keys [OF init]
  show "fst ` set (locations (state_of (dc_set_locations self stays))) = {start_date..end_date}"
    by (simp only: keys_set dc_set_locations_keys) simp
next
  assume init: "ddc_init table start_year end_year home_location = Inr dself"
  then obtain jan1 dec31 base where
    jan1: "date_ymd start_year 1 1 = Inr jan1" and dec31: "date_ymd end_year 12 31 = Inr dec31"
    and base: "dc_init table jan1 dec31 (Some home_location) = Inr base"
    by (auto simp: ddc_init_def split: sum.splits)
  then obtain c where c: "dc_coordinates table home_location = Inr c"
    by (auto simp: dc_init_def split: sum.splits)
  from init ddc_init_ok [OF c jan1 dec31]
  have keys: "map fst (locations dself) = [jan1..dec31]" by (auto simp: comp_def)
  have "fst ` set (locations dself) = {jan1..dec31}"
    using keys by (simp only: keys_set) simp
  moreover have "fst ` set (locations (state_of (ddc_set_location m dself checkout_date nights location)))
           = {jan1..dec31}"
    using keys by (simp only: keys_set ddc_set_location_keys) simp
  moreover have "fst ` set (locations (state_of (ddc_set_locations m dself stays))) = {jan1..dec31}"
    using keys by (simp only: keys_set ddc_set_locations_keys) simp
  ultimately show "\<exists>jan1 dec31.
         date_ymd start_year 1 1 = Inr jan1 \<and> date_ymd end_year 12 31 = Inr dec31 \<and>
         fst ` set (locations dself) = {jan1..dec31} \<and>
         fst ` set (locations (state_of (ddc_set_location m dself checkout_date nights location)))
           = {jan1..dec31} \<and>
         fst ` set (locations (state_of (ddc_set_locations m dself stays))) = {jan1..dec31}"
    using jan1 dec31 by blast
qed

theorem key_set_fixed_at_construction_witness:
  "fst ` set (locations (state_of (dc_set_location example_calendar 11 2 ''B''))) = {10..12}
   \<and> fst ` set (locations (state_of
         (dc_set_locations example_calendar [(11, 2, ''B''), (13, 1, ''A/North'')]))) = {10..12}
   \<and> (\<exists>dself. ddc_init example_table 2024 2024 ''B'' = Inr dself
         \<and> fst ` set (locations dself) = {738886..739251}
         \<and> fst ` set (locations (state_of
               (ddc_set_locations exact_math dself [(11, 2, ''B''), (13, 1, ''A/North'')])))
             = {738886..739251})"
proof -
  obtain dself where dself: "ddc_init example_table 2024 2024 ''B'' = Inr dself"
    using ddc_init_ok [OF example_B example_2024] by blast
  from key_set_fixed_at_construction [of example_table 10 12 None example_calendar 11 2 "''B''"
      "[(11, 2, ''B''), (13, 1, ''A/North'')]" 2024 2024 "''B''" dself exact_math]
  show ?thesis
    by (simp add: example_calendar_init dself example_2024)
qed

text \<open>
  Claim C2, as stated, fails where the first morning would fall before 0001-01-01: with
  checkout on day 3 and 5 nights the claimed range contains the keys 1, 2 and 3, and
  \<^verbatim>\<open>set_location\<close> raises \<^verbatim>\<open>OverflowError\<close> without touching any of them, although the
  location resolves.
\<close>

theorem stay_date_range_counterexample:
  "dc_coordinates example_table ''B'' = Inr (JCoords 10 20)
   \<and> dc_set_location example_early_calendar 3 5 ''B''
       = Raised OverflowError example_early_calendar"
  by (simp add: example_B dc_set_location_def stay_dates_def first_morning_def
      date_sub_days_def date_min_def)

text \<open>
  Claim C2, amended. For \<open>nights \<ge> 1\<close> whose first morning \<open>checkout_date - (nights - 1)\<close>
  days is a \<^verbatim>\<open>date\<close> (not before 0001-01-01), the dates that \<^verbatim>\<open>set_location\<close> loops over
  (both classes) are exactly the dates from the first morning to \<open>checkout_date\<close>, each once,
  \<open>nights\<close> dates in all; for \<open>nights = 1\<close> that is the single date \<open>checkout_date\<close>.
\<close>

theorem stay_date_range:
  assumes "1 \<le> nights"
    and "checkout_date \<le> date_max"
    and "date_min \<le> checkout_date - (nights - 1)"
  shows "first_morning checkout_date nights = Inr (checkout_date - (nights - 1))
    \<and> stay_dates checkout_date nights = Inr [checkout_date - (nights - 1)..checkout_date]
    \<and> set [checkout_date - (nights - 1)..checkout_date]
        = {d. checkout_date - (nights - 1) \<le> d \<and> d \<le> checkout_date}
    \<and> distinct [checkout_date - (nights - 1)..checkout_date]
    \<and> int (length [checkout_date - (nights - 1)..checkout_date]) = nights
    \<and> (nights = 1 \<longrightarrow> stay_dates checkout_date nights = Inr [checkout_date])
    \<and> dc_set_location self checkout_date nights location =
        map_outcome (\<lambda>locs. self\<lparr>locations := locs\<rparr>)
          (dc_set_location_loop (location_coordinates self) location
             [checkout_date - (nights - 1)..checkout_date] (locations self))
    \<and> (ddc_home_distance m dself location = Inr distance_value \<longrightarrow>
        ddc_set_location m dself checkout_date nights location =
          map_outcome (\<lambda>locs. dself\<lparr>locations := locs\<rparr>)
            (ddc_set_location_loop (location_coordinates dself) location distance_value
               [checkout_date - (nights - 1)..checkout_date] (locations dself)))"
proof -
  have fm: "first_morning checkout_date nights = Inr (checkout_date - (nights - 1))"
    using assms by (simp add: first_morning_def date_sub_days_def)
  then have sd: "stay_dates checkout_date nights
      = Inr [checkout_date - (nights - 1)..checkout_date]"
    by (simp add: stay_dates_def dc_inclusive_date_range_def)
  have len: "int (length [checkout_date - (nights - 1)..checkout_date]) = nights"
    using assms by simp
  have one: "nights = 1 \<longrightarrow> stay_dates checkout_date nights = Inr [checkout_date]"
    using assms
    by (simp add: stay_dates_def first_morning_def date_sub_days_def dc_inclusive_date_range_def)
  show ?thesis
    using fm sd len one by (auto simp: dc_set_location_def ddc_set_location_def)
qed

theorem stay_date_range_witness:
  "stay_dates 738955 3 = Inr [738953, 738954, 738955]
   \<and> stay_dates 738955 1 = Inr [738955]
   \<and> int (length [738953 .. 738955 :: int]) = 3
   \<and> dc_set_location example_calendar 13 3 ''A/East''
       = map_outcome (\<lambda>locs. example_calendar\<lparr>locations := locs\<rparr>)
           (dc_set_location_loop example_table ''A/East'' [11, 12, 13]
              [(10, None), (11, None), (12, None)])
   \<and> ddc_set_location exact_math example_distance_calendar 13 3 ''A/East''
       = map_outcome (\<lambda>locs. example_distance_calendar\<lparr>locations := locs\<rparr>)
           (ddc_set_location_loop example_table ''A/East'' (pi / 2 * 3958.7613) [11, 12, 13]
              [(10, None), (11, None), (12, None)])"
proof -
  from stay_date_range [of 3 738955 example_calendar "''A/East''" exact_math
      example_distance_calendar "pi / 2 * 3958.7613"]
    stay_date_range [of 1 738955 example_calendar "''A/East''" exact_math
      example_distance_calendar "pi / 2 * 3958.7613"]
    stay_date_range [of 3 13 example_calendar "''A/East''" exact_math example_distance_calendar
      "pi / 2 * 3958.7613"]
  show ?thesis
    by (simp add: date_min_def date_max_def upto_rec1 example_calendar_fields
        example_distance_calendar_fields example_home_distance_East)
qed

text \<open>
  Claim C3, as stated, fails for \<^verbatim>\<open>DateCollection.set_location\<close>: it looks the location up
  only inside the loop, for a date that is a key. With a stay that lies outside the
  calendar the identifier \<^verbatim>\<open>A/North\<close>, whose segment \<^verbatim>\<open>North\<close> is missing from the table, is
  never looked up, nothing is printed and the call returns.
\<close>

theorem fatal_lookup_counterexample:
  "reduce_getitem (split CHR ''/'' ''A/North'') example_table = Inl KeyError
   \<and> dc_set_location example_calendar 20 3 ''A/North'' = Returned example_calendar"
proof
  show "reduce_getitem (split CHR ''/'' ''A/North'') example_table = Inl KeyError"
    by (rule example_missing)
  show "dc_set_location example_calendar 20 3 ''A/North'' = Returned example_calendar"
    by (simp add: dc_set_location_def stay_dates_def first_morning_def
      date_sub_days_def date_min_def date_max_def dc_inclusive_date_range_def upto_rec1
      example_calendar_def)
qed

text \<open>
  Claim C3, amended. When a path segment of the identifier is missing from the dict that
  the segments before it lead to, the lookup prints the identifier and the path of the
  reference file and raises \<^verbatim>\<open>SystemExit\<close>. Construction with such a default location
  fails that way before a calendar exists, and so does the construction of a distance
  calendar with such a home location when both years are in \<open>1..9999\<close>; for another year
  \<^verbatim>\<open>date()\<close> raises first (\<^verbatim>\<open>ValueError\<close>, or \<^verbatim>\<open>OverflowError\<close> when the year does not fit a
  C \<^verbatim>\<open>int\<close>). \<^verbatim>\<open>set_location\<close> of either class first computes the first morning and raises
  \<^verbatim>\<open>OverflowError\<close>, with the calendar unchanged, when that is not a \<^verbatim>\<open>date\<close>. Otherwise
  \<^verbatim>\<open>DateDistanceCollection.set_location\<close> fails with \<^verbatim>\<open>SystemExit\<close> as above, with the
  calendar unchanged, and \<^verbatim>\<open>DateCollection.set_location\<close> fails that way, with the calendar
  unchanged, exactly when some date of the stay is a key, and returns with the calendar
  unchanged when none is.
\<close>

theorem fatal_lookup:
  assumes "reduce_getitem (split CHR ''/'' location) table = Inl KeyError"
  shows "dc_coordinates table location = Inl (SystemExit (not_found_output location))
    \<and> not_found_output location ! 1 = location
    \<and> not_found_output location ! 2
        = CHR 0x0A # ''Please add it to '' @ COORDINATES_PATH @ ''.'' @ [CHR 0x0A]
    \<and> dc_init table start_date end_date (Some location)
        = Inl (SystemExit (not_found_output location))
    \<and> ddc_init table start_year end_year location =
        (if 1 \<le> start_year \<and> start_year \<le> 9999 then
           (if 1 \<le> end_year \<and> end_year \<le> 9999
            then Inl (SystemExit (not_found_output location))
            else if fits_c_int end_year then Inl ValueError else Inl OverflowError)
         else if fits_c_int start_year then Inl ValueError else Inl OverflowError)
    \<and> (location_coordinates dself = table \<longrightarrow>
         ddc_set_location m dself checkout_date nights location =
           (if date_min \<le> checkout_date - (nights - 1)
               \<and> checkout_date - (nights - 1) \<le> date_max
            then Raised (SystemExit (not_found_output location)) dself
            else Raised OverflowError dself))
    \<and> (location_coordinates self = table \<longrightarrow>
         dc_set_location self checkout_date nights location =
           (if date_min \<le> checkout_date - (nights - 1)
               \<and> checkout_date - (nights - 1) \<le> date_max
            then
              (if {checkout_date - (nights - 1)..checkout_date} \<inter> fst ` set (locations self)
                    = {}
               then Returned self
               else Raised (SystemExit (not_found_output location)) self)
            else Raised OverflowError self))"
proof -
  have c: "dc_coordinates table location = Inl (SystemExit (not_found_output location))"
    using assms by (simp add: dc_coordinates_def)
  have out: "not_found_output location ! 1 = location"
    "not_found_output location ! 2
        = CHR 0x0A # ''Please add it to '' @ COORDINATES_PATH @ ''.'' @ [CHR 0x0A]"
    by (simp_all add: not_found_output_def)
  have init: "dc_init table start_date end_date (Some location)
        = Inl (SystemExit (not_found_output location))"
    by (rule dc_init_Some_error [OF c])
  note dinit = ddc_init_unresolved [OF c, of start_year end_year]
  have dset: "location_coordinates dself = table \<longrightarrow>
         ddc_set_location m dself checkout_date nights location =
           (if date_min \<le> checkout_date - (nights - 1)
               \<and> checkout_date - (nights - 1) \<le> date_max
            then Raised (SystemExit (not_found_output location)) dself
            else Raised OverflowError dself)"
    using c by (auto simp: ddc_set_location_unresolved)
  have bset: "location_coordinates self = table \<longrightarrow>
         dc_set_location self checkout_date nights location =
           (if date_min \<le> checkout_date - (nights - 1)
               \<and> checkout_date - (nights - 1) \<le> date_max
            then
              (if {checkout_date - (nights - 1)..checkout_date} \<inter> fst ` set (locations self)
                    = {}
               then Returned self
               else Raised (SystemExit (not_found_output location)) self)
            else Raised OverflowError self)"
    using c by (auto simp: dc_set_location_unresolved)
  from c out init dinit dset bset show ?thesis by (intro conjI)
qed

theorem fatal_lookup_witness:
  "dc_coordinates example_table ''A/North'' = Inl (SystemExit (not_found_output ''A/North''))
   \<and> dc_init example_table 10 12 (Some ''A/North'')
       = Inl (SystemExit (not_found_output ''A/North''))
   \<and> ddc_init example_table 2024 2025 ''A/North''
       = Inl (SystemExit (not_found_output ''A/North''))
   \<and> ddc_init example_table 0 2025 ''A/North'' = Inl ValueError
   \<and> ddc_init example_table 2024 (2 ^ 31) ''A/North'' = Inl OverflowError
   \<and> ddc_set_location exact_math example_distance_calendar 20 3 ''A/North''
       = Raised (SystemExit (not_found_output ''A/North'')) example_distance_calendar
   \<and> ddc_set_location exact_math example_distance_calendar 3 5 ''A/North''
       = Raised OverflowError example_distance_calendar
   \<and> dc_set_location example_calendar 11 3 ''A/North''
       = Raised (SystemExit (not_found_output ''A/North'')) example_calendar
   \<and> dc_set_location example_calendar 3 5 ''A/North''
       = Raised OverflowError example_calendar"
proof -
  note f1 = fatal_lookup [OF example_missing, where start_date = 10 and end_date = 12
        and start_year = 2024 and end_year = 2025 and dself = example_distance_calendar
        and m = exact_math and self = example_calendar and checkout_date = 20 and nights = 3]
  note f2 = fatal_lookup [OF example_missing, where start_date = 10 and end_date = 12
        and start_year = 0 and end_year = 2025 and dself = example_distance_calendar
        and m = exact_math and self = example_calendar and checkout_date = 3 and nights = 5]
  note f3 = fatal_lookup [OF example_missing, where start_date = 10 and end_date = 12
        and start_year = 2024 and end_year = "2 ^ 31" and dself = example_distance_calendar
        and m = exact_math and self = example_calendar and checkout_date = 11 and nights = 3]
  have keys: "{9..11} \<inter> fst ` set (locations example_calendar) \<noteq> {}"
    by (simp add: example_calendar_fields)
  have "dc_coordinates example_table ''A/North''
      = Inl (SystemExit (not_found_output ''A/North''))"
    by (rule f1 [THEN conjunct1])
  moreover have "dc_init example_table 10 12 (Some ''A/North'')
       = Inl (SystemExit (not_found_output ''A/North''))"
    by (rule f1 [THEN conjunct2, THEN conjunct2, THEN conjunct2, THEN conjunct1])
  moreover have "ddc_init example_table 2024 2025 ''A/North''
       = Inl (SystemExit (not_found_output ''A/North''))"
    using f1 [THEN conjunct2, THEN conjunct2, THEN conjunct2, THEN conjunct2, THEN conjunct1]
    by simp
  moreover have "ddc_init example_table 0 2025 ''A/North'' = Inl ValueError"
    using f2 [THEN conjunct2, THEN conjunct2, THEN conjunct2, THEN conjunct2, THEN conjunct1]
    by (simp add: fits_c_int_def)
  moreover have "ddc_init example_table 2024 (2 ^ 31) ''A/North'' = Inl OverflowError"
    using f3 [THEN conjunct2, THEN conjunct2, THEN conjunct2, THEN conjunct2, THEN conjunct1]
    by (simp add: fits_c_int_def)
  moreover have "ddc_set_location exact_math example_distance_calendar 20 3 ''A/North''
       = Raised (SystemExit (not_found_output ''A/North'')) example_distance_calendar"
    using f1 [THEN conjunct2, THEN conjunct2, THEN conjunct2, THEN conjunct2, THEN conjunct2,
        THEN conjunct1]
    by (simp add: example_distance_calendar_fields date_min_def date_max_def)
  moreover have "ddc_set_location exact_math example_distance_calendar 3 5 ''A/North''
       = Raised OverflowError example_distance_calendar"
    using f2 [THEN conjunct2, THEN conjunct2, THEN conjunct2, THEN conjunct2, THEN conjunct2,
        THEN conjunct1]
    by (simp add: example_distance_calendar_fields date_min_def date_max_def)
  moreover have "dc_set_location example_calendar 11 3 ''A/North''
       = Raised (SystemExit (not_found_output ''A/North'')) example_calendar"
    using f3 [THEN conjunct2, THEN conjunct2, THEN conjunct2, THEN conjunct2, THEN conjunct2,
        THEN conjunct2] keys
    by (simp add: example_calendar_fields date_min_def date_max_def)
  moreover have "dc_set_location example_calendar 3 5 ''A/North''
       = Raised OverflowError example_calendar"
    using f2 [THEN conjunct2, THEN conjunct2, THEN conjunct2, THEN conjunct2, THEN conjunct2,
        THEN conjunct2]
    by (simp add: example_calendar_fields date_min_def date_max_def)
  ultimately show ?thesis by (intro conjI)
qed

text \<open>
  Claim C4, as stated, fails where the first morning would fall before 0001-01-01. A stay
  of 4 nights with checkout on day 2 lies partly before a calendar that starts on day 1 and
  covers its keys 1 and 2; \<^verbatim>\<open>set_location\<close> raises \<^verbatim>\<open>OverflowError\<close> and overwrites neither
  of them, on both classes, although the location resolves.
\<close>

theorem partial_overlap_counterexample:
  "dc_coordinates example_table ''A/East'' = Inr (JCoords 0 90)
   \<and> dc_set_location example_early_calendar 2 4 ''A/East''
       = Raised OverflowError example_early_calendar
   \<and> ddc_set_location exact_math example_early_distance_calendar 2 4 ''A/East''
       = Raised OverflowError example_early_distance_calendar"
  by (simp add: example_East dc_set_location_def ddc_set_location_def stay_dates_def
      first_morning_def date_sub_days_def date_min_def)

text \<open>
  Claim C4, amended. For every \<^verbatim>\<open>set_location\<close> call of either class, whether it returns or
  raises, no key is added or removed, and every entry whose date is not both in the stay
  range \<open>checkout_date - (nights - 1) .. checkout_date\<close> and a key keeps its value. When the
  first morning is a \<^verbatim>\<open>date\<close> (\<open>fm\<close>) and the location resolves, and for the distance calendar
  \<^verbatim>\<open>_home_distance\<close> returns a value, the call returns, and exactly the entries of the dates
  that are in the stay range and are keys hold the new assignment: the dates of the stay
  range that are not keys are skipped without error.
\<close>

theorem partial_overlap:
  "map fst (locations (state_of (dc_set_location self checkout_date nights location)))
       = map fst (locations self)
   \<and> (\<forall>d. \<not> (checkout_date - (nights - 1) \<le> d \<and> d \<le> checkout_date
              \<and> d \<in> fst ` set (locations self)) \<longrightarrow>
         map_of (locations (state_of (dc_set_location self checkout_date nights location))) d
           = map_of (locations self) d)
   \<and> (first_morning checkout_date nights = Inr fm
        \<and> dc_coordinates (location_coordinates self) location = Inr c \<longrightarrow>
        (\<exists>locs'. dc_set_location self checkout_date nights location
                   = Returned (self\<lparr>locations := locs'\<rparr>)
           \<and> (\<forall>d. map_of locs' d =
                 (if fm \<le> d \<and> d \<le> checkout_date \<and> d \<in> fst ` set (locations self)
                  then Some (Some \<lparr>city = location, coordinates = c, distance = None\<rparr>)
                  else map_of (locations self) d))))
   \<and> map fst (locations (state_of (ddc_set_location m dself checkout_date nights location)))
       = map fst (locations dself)
   \<and> (\<forall>d. \<not> (checkout_date - (nights - 1) \<le> d \<and> d \<le> checkout_date
              \<and> d \<in> fst ` set (locations dself)) \<longrightarrow>
         map_of (locations (state_of (ddc_set_location m dself checkout_date nights location))) d
           = map_of (locations dself) d)
   \<and> (first_morning checkout_date nights = Inr fm
        \<and> dc_coordinates (location_coordinates dself) location = Inr c
        \<and> ddc_home_distance m dself location = Inr distance_value \<longrightarrow>
        (\<exists>locs'. ddc_set_location m dself checkout_date nights location
                   = Returned (dself\<lparr>locations := locs'\<rparr>)
           \<and> (\<forall>d. map_of locs' d =
                 (if fm \<le> d \<and> d \<le> checkout_date \<and> d \<in> fst ` set (locations dself)
                  then Some (Some \<lparr>city = location, coordinates = c,
                                   distance = Some distance_value\<rparr>)
                  else map_of (locations dself) d))))"
  using dc_set_location_keys [of self checkout_date nights location]
    ddc_set_location_keys [of m dself checkout_date nights location]
    dc_set_location_frame [of checkout_date nights _ self location]
    ddc_set_location_frame [of checkout_date nights _ dself m location]
    dc_set_location_ok [of checkout_date nights fm self location c]
    ddc_set_location_ok [of checkout_date nights fm m dself location distance_value c]
  by (intro conjI allI impI) blast+

theorem partial_overlap_witness:
  "(\<exists>locs'. dc_set_location example_calendar 13 3 ''A/East''
               = Returned (example_calendar\<lparr>locations := locs'\<rparr>)
      \<and> map_of locs' 10 = Some None
      \<and> map_of locs' 12
          = Some (Some \<lparr>city = ''A/East'', coordinates = JCoords 0 90, distance = None\<rparr>)
      \<and> map_of locs' 13 = None)
   \<and> (\<exists>locs'. ddc_set_location exact_math example_distance_calendar 13 3 ''A/East''
               = Returned (example_distance_calendar\<lparr>locations := locs'\<rparr>)
      \<and> map_of locs' 10 = Some None
      \<and> map_of locs' 12
          = Some (Some \<lparr>city = ''A/East'', coordinates = JCoords 0 90,
                         distance = Some (pi / 2 * 3958.7613)\<rparr>)
      \<and> map_of locs' 13 = None)
   \<and> map_of (locations (state_of (dc_set_location example_calendar 13 3 ''A/North''))) 10
       = Some None
   \<and> map_of (locations (state_of
         (ddc_set_location exact_math example_distance_calendar 13 3 ''A/North''))) 10 = Some None"
proof -
  note po = partial_overlap [of example_calendar 13 3 "''A/East''" 11
      "JCoords 0 90" exact_math example_distance_calendar "pi / 2 * 3958.7613"]
  note pn = partial_overlap [of example_calendar 13 3 "''A/North''" 11
      "JCoords 0 90" exact_math example_distance_calendar "pi / 2 * 3958.7613"]
  have c1: "first_morning 13 3 = Inr 11
    \<and> dc_coordinates (location_coordinates example_calendar) ''A/East'' = Inr (JCoords 0 90)"
    by (simp add: example_first_morning example_calendar_fields example_East)
  have c2: "first_morning 13 3 = Inr 11
    \<and> dc_coordinates (location_coordinates example_distance_calendar) ''A/East''
      = Inr (JCoords 0 90)
    \<and> ddc_home_distance exact_math example_distance_calendar ''A/East'' = Inr (pi / 2 * 3958.7613)"
    by (simp only: example_first_morning example_distance_calendar_fields example_East
        example_home_distance_East)
  from po [THEN conjunct2, THEN conjunct2, THEN conjunct1, rule_format, OF c1]
  obtain locs1 where
    r1: "dc_set_location example_calendar 13 3 ''A/East''
          = Returned (example_calendar\<lparr>locations := locs1\<rparr>)"
    and m1: "\<And>d. map_of locs1 d =
          (if 11 \<le> d \<and> d \<le> 13 \<and> d \<in> fst ` set (locations example_calendar)
           then Some (Some \<lparr>city = ''A/East'', coordinates = JCoords 0 90, distance = None\<rparr>)
           else map_of (locations example_calendar) d)"
    by blast
  from po [THEN conjunct2, THEN conjunct2, THEN conjunct2, THEN conjunct2, THEN conjunct2,
      rule_format, OF c2]
  obtain locs2 where
    r2: "ddc_set_location exact_math example_distance_calendar 13 3 ''A/East''
          = Returned (example_distance_calendar\<lparr>locations := locs2\<rparr>)"
    and m2: "\<And>d. map_of locs2 d =
          (if 11 \<le> d \<and> d \<le> 13 \<and> d \<in> fst ` set (locations example_distance_calendar)
           then Some (Some \<lparr>city = ''A/East'', coordinates = JCoords 0 90,
                            distance = Some (pi / 2 * 3958.7613)\<rparr>)
           else map_of (locations example_distance_calendar) d)"
    by blast
  have "map_of locs1 10 = Some None"
    "map_of locs1 12
      = Some (Some \<lparr>city = ''A/East'', coordinates = JCoords 0 90, distance = None\<rparr>)"
    "map_of locs1 13 = None"
    using m1 [of 10] m1 [of 12] m1 [of 13] by (simp_all add: example_calendar_fields)
  moreover have "map_of locs2 10 = Some None"
    "map_of locs2 12
      = Some (Some \<lparr>city = ''A/East'', coordinates = JCoords 0 90,
                     distance = Some (pi / 2 * 3958.7613)\<rparr>)"
    "map_of locs2 13 = None"
    using m2 [of 10] m2 [of 12] m2 [of 13]
    by (simp_all add: example_distance_calendar_fields)
  moreover have
    "map_of (locations (state_of (dc_set_location example_calendar 13 3 ''A/North''))) 10
       = Some None"
    using pn [THEN conjunct2, THEN conjunct1, rule_format, of 10]
    by (simp add: example_calendar_fields)
  moreover have
    "map_of (locations (state_of
         (ddc_set_location exact_math example_distance_calendar 13 3 ''A/North''))) 10 = Some None"
    using pn [THEN conjunct2, THEN conjunct2, THEN conjunct2, THEN conjunct2, THEN conjunct1,
        rule_format, of 10]
    by (simp add: example_distance_calendar_fields)
  ultimately show ?thesis using r1 r2 by blast
qed

text \<open>
  Claim C5. Without a default location every entry of a new calendar is \<^verbatim>\<open>None\<close>. With a
  default location the constructor returns exactly when the location resolves, and then
  every entry holds that location and its looked-up coordinates. A distance calendar is
  returned exactly when the home location resolves and both years are in \<open>1..9999\<close>; it then
  has one entry for every day from 1 January of \<open>start_year\<close> to 31 December of \<open>end_year\<close>,
  each with the home location, its coordinates and the distance \<open>0.0\<close>.
\<close>

theorem default_propagation:
  "dc_init table start_date end_date None =
     Inr \<lparr>location_coordinates = table,
          locations = map (\<lambda>d. (d, None)) [start_date..end_date]\<rparr>
   \<and> (dc_coordinates table default_location = Inr c \<longrightarrow>
        dc_init table start_date end_date (Some default_location) =
          Inr \<lparr>location_coordinates = table,
               locations =
                 map (\<lambda>d. (d, Some \<lparr>city = default_location, coordinates = c, distance = None\<rparr>))
                   [start_date..end_date]\<rparr>)
   \<and> (dc_init table start_date end_date (Some default_location) = Inr self \<longrightarrow>
        (\<exists>c. dc_coordinates table default_location = Inr c
           \<and> locations self =
                 map (\<lambda>d. (d, Some \<lparr>city = default_location, coordinates = c, distance = None\<rparr>))
                   [start_date..end_date]))
   \<and> (dc_coordinates table home_location = Inr h
        \<and> 1 \<le> start_year \<and> start_year \<le> 9999 \<and> 1 \<le> end_year \<and> end_year \<le> 9999 \<longrightarrow>
        date_ymd start_year 1 1 = Inr (days_before_year start_year + 1) \<and>
        date_ymd end_year 12 31 = Inr (days_before_year (end_year + 1)) \<and>
        ddc_init table start_year end_year home_location =
          Inr \<lparr>location_coordinates = table,
               locations =
                 map (\<lambda>d. (d, Some \<lparr>city = home_location, coordinates = h, distance = Some 0\<rparr>))
                   [days_before_year start_year + 1..days_before_year (end_year + 1)],
               home_coordinates = h\<rparr>)
   \<and> (ddc_init table start_year end_year home_location = Inr dself \<longrightarrow>
        (\<exists>h jan1 dec31.
           dc_coordinates table home_location = Inr h
           \<and> date_ymd start_year 1 1 = Inr jan1 \<and> date_ymd end_year 12 31 = Inr dec31
           \<and> home_coordinates dself = h
           \<and> locations dself =
                 map (\<lambda>d. (d, Some \<lparr>city = home_location, coordinates = h, distance = Some 0\<rparr>))
                   [jan1..dec31]))"
proof (intro conjI impI)
  show "dc_init table start_date end_date None =
     Inr \<lparr>location_coordinates = table,
          locations = map (\<lambda>d. (d, None)) [start_date..end_date]\<rparr>"
    by (rule dc_init_None)
next
  assume "dc_coordinates table default_location = Inr c"
  then show "dc_init table start_date end_date (Some default_location) =
          Inr \<lparr>location_coordinates = table,
               locations =
                 map (\<lambda>d. (d, Some \<lparr>city = default_location, coordinates = c, distance = None\<rparr>))
                   [start_date..end_date]\<rparr>"
    by (rule dc_init_Some)
next
  assume "dc_init table start_date end_date (Some default_location) = Inr self"
  from dc_init_Some_Inr [OF this]
  show "\<exists>c. dc_coordinates table default_location = Inr c
           \<and> locations self =
                 map (\<lambda>d. (d, Some \<lparr>city = default_location, coordinates = c, distance = None\<rparr>))
                   [start_date..end_date]"
    by auto
next
  assume h: "dc_coordinates table home_location = Inr h
        \<and> 1 \<le> start_year \<and> start_year \<le> 9999 \<and> 1 \<le> end_year \<and> end_year \<le> 9999"
  then show "date_ymd start_year 1 1 = Inr (days_before_year start_year + 1)"
    and "date_ymd end_year 12 31 = Inr (days_before_year (end_year + 1))"
    and "ddc_init table start_year end_year home_location =
          Inr \<lparr>location_coordinates = table,
               locations =
                 map (\<lambda>d. (d, Some \<lparr>city = home_location, coordinates = h, distance = Some 0\<rparr>))
                   [days_before_year start_year + 1..days_before_year (end_year + 1)],
               home_coordinates = h\<rparr>"
    by (simp_all add: date_ymd_jan1 date_ymd_dec31 ddc_init_ok)
next
  assume "ddc_init table start_year end_year home_location = Inr dself"
  from ddc_init_Inr [OF this]
  show "\<exists>h jan1 dec31.
           dc_coordinates table home_location = Inr h
           \<and> date_ymd start_year 1 1 = Inr jan1 \<and> date_ymd end_year 12 31 = Inr dec31
           \<and> home_coordinates dself = h
           \<and> locations dself =
                 map (\<lambda>d. (d, Some \<lparr>city = home_location, coordinates = h, distance = Some 0\<rparr>))
                   [jan1..dec31]"
    by auto
qed

theorem default_propagation_witness:
  "dc_init example_table 10 12 (Some ''B'') =
     Inr \<lparr>location_coordinates = example_table,
          locations =
            [(10, Some \<lparr>city = ''B'', coordinates = JCoords 10 20, distance = None\<rparr>),
             (11, Some \<lparr>city = ''B'', coordinates = JCoords 10 20, distance = None\<rparr>),
             (12, Some \<lparr>city = ''B'', coordinates = JCoords 10 20, distance = None\<rparr>)]\<rparr>
   \<and> ddc_init example_table 2024 2024 ''B'' =
     Inr \<lparr>location_coordinates = example_table,
          locations =
            map (\<lambda>d. (d, Some \<lparr>city = ''B'', coordinates = JCoords 10 20, distance = Some 0\<rparr>))
              [738886..739251],
          home_coordinates = JCoords 10 20\<rparr>
   \<and> (\<exists>dself. ddc_init example_table 2024 2024 ''B'' = Inr dself
        \<and> home_coordinates dself = JCoords 10 20
        \<and> locations dself =
            map (\<lambda>d. (d, Some \<lparr>city = ''B'', coordinates = JCoords 10 20, distance = Some 0\<rparr>))
              [738886..739251])"
proof -
  have days: "days_before_year 2024 + 1 = 738886" "days_before_year 2025 = 739251"
    by (simp_all add: days_before_year_def)
  have range: "[10..12] = [10, 11, 12 :: int]"
    by (simp add: upto_rec1)
  note dp = default_propagation [of example_table 10 12 "''B''" "JCoords 10 20" _ "''B''"
        "JCoords 10 20" 2024 2024]
  have first: "dc_init example_table 10 12 (Some ''B'') =
     Inr \<lparr>location_coordinates = example_table,
          locations =
            [(10, Some \<lparr>city = ''B'', coordinates = JCoords 10 20, distance = None\<rparr>),
             (11, Some \<lparr>city = ''B'', coordinates = JCoords 10 20, distance = None\<rparr>),
             (12, Some \<lparr>city = ''B'', coordinates = JCoords 10 20, distance = None\<rparr>)]\<rparr>"
    using dp [THEN conjunct2, THEN conjunct1] by (simp add: example_B range)
  have second: "ddc_init example_table 2024 2024 ''B'' =
     Inr \<lparr>location_coordinates = example_table,
          locations =
            map (\<lambda>d. (d, Some \<lparr>city = ''B'', coordinates = JCoords 10 20, distance = Some 0\<rparr>))
              [738886..739251],
          home_coordinates = JCoords 10 20\<rparr>"
    using dp [THEN conjunct2, THEN conjunct2, THEN conjunct2, THEN conjunct1]
    by (simp add: example_B days)
  from dp [THEN conjunct2, THEN conjunct2, THEN conjunct2, THEN conjunct2, rule_format,
      OF second]
  have third: "\<exists>dself. ddc_init example_table 2024 2024 ''B'' = Inr dself
        \<and> home_coordinates dself = JCoords 10 20
        \<and> locations dself =
            map (\<lambda>d. (d, Some \<lparr>city = ''B'', coordinates = JCoords 10 20, distance = Some 0\<rparr>))
              [738886..739251]"
    using second by (simp add: example_B example_2024)
  from first second third show ?thesis by blast
qed

text \<open>
  Claims C6 and C7 are about the value that \<^verbatim>\<open>_home_distance\<close> returns. In exact arithmetic
  it is the reference distance of the specification, never negative, and \<open>0\<close> from home to
  home (lemmas \<open>home_distance_eq\<close>, \<open>home_distance_nonneg\<close> and \<open>home_distance_home_zero\<close>
  above). The method itself does not return for every resolvable destination: it takes
  \<^verbatim>\<open>math.sqrt(1 - a)\<close> of a sum \<open>a\<close> that it does not clamp, and raises \<^verbatim>\<open>ValueError\<close> where
  that sum exceeds \<open>1\<close> (lemma \<open>home_distance_unclamped\<close>). In doubles this happens near
  antipodal points, where \<open>a = 1\<close> exactly (lemma \<open>antipodal_a\<close>): for home \<open>(0.08, 0.0)\<close> and
  destination \<open>(-0.08, 180.0)\<close> the sum is \<open>1.0000000000000002\<close>.
\<close>

text \<open>
  Claim C8, as stated, fails where the first morning would fall before 0001-01-01: with
  checkout on day 2 and 4 nights the stay covers the keys 1 and 2, and
  \<^verbatim>\<open>DateDistanceCollection.set_location\<close> raises \<^verbatim>\<open>OverflowError\<close> before it calls
  \<^verbatim>\<open>_home_distance\<close>: the distance is computed not once but never, and no date is
  overwritten, although the location resolves.
\<close>

theorem distance_once_per_call_counterexample:
  "dc_coordinates example_table ''B'' = Inr (JCoords 10 20)
   \<and> ddc_set_location_traced exact_math example_early_distance_calendar 2 4 ''B'' []
       = (Raised OverflowError example_early_distance_calendar, [])"
  by (simp add: example_B ddc_set_location_traced_def stay_dates_def first_morning_def
      date_sub_days_def date_min_def)

text \<open>
  Claim C8, amended. \<^verbatim>\<open>DateDistanceCollection.set_location\<close> with the log of its
  \<^verbatim>\<open>_home_distance\<close> calls is the method itself when the log is dropped. When the first
  morning is a \<^verbatim>\<open>date\<close> (\<open>fm\<close>), the call makes exactly one \<^verbatim>\<open>_home_distance\<close> call, for the
  location, whatever the number of dates of the stay; when the first morning is not a
  \<^verbatim>\<open>date\<close> it makes none and raises with the calendar unchanged. When the one
  \<^verbatim>\<open>_home_distance\<close> call raises, \<^verbatim>\<open>set_location\<close> raises the same exception with the
  calendar unchanged. When it returns a value, the location resolves, \<^verbatim>\<open>set_location\<close>
  returns, every date of the stay that is a key holds the location, its coordinates and
  that one value, and every other entry keeps its value.
\<close>

theorem distance_once_per_call:
  "fst (ddc_set_location_traced m self checkout_date nights location calls)
     = ddc_set_location m self checkout_date nights location
   \<and> (first_morning checkout_date nights = Inr fm \<longrightarrow>
        snd (ddc_set_location_traced m self checkout_date nights location calls)
          = calls @ [location])
   \<and> (first_morning checkout_date nights = Inl e \<longrightarrow>
        ddc_set_location_traced m self checkout_date nights location calls
          = (Raised e self, calls))
   \<and> (first_morning checkout_date nights = Inr fm
        \<and> ddc_home_distance m self location = Inl e \<longrightarrow>
        ddc_set_location_traced m self checkout_date nights location calls
          = (Raised e self, calls @ [location]))
   \<and> (first_morning checkout_date nights = Inr fm
        \<and> ddc_home_distance m self location = Inr distance_value \<longrightarrow>
        (\<exists>c locs'.
           dc_coordinates (location_coordinates self) location = Inr c
           \<and> ddc_set_location_traced m self checkout_date nights location calls
               = (Returned (self\<lparr>locations := locs'\<rparr>), calls @ [location])
           \<and> (\<forall>d. map_of locs' d =
                 (if fm \<le> d \<and> d \<le> checkout_date \<and> d \<in> fst ` set (locations self)
                  then Some (Some \<lparr>city = location, coordinates = c,
                                   distance = Some distance_value\<rparr>)
                  else map_of (locations self) d))))"
proof (intro conjI impI)
  show "fst (ddc_set_location_traced m self checkout_date nights location calls)
     = ddc_set_location m self checkout_date nights location"
    by (rule ddc_set_location_traced_fst)
next
  assume "first_morning checkout_date nights = Inr fm"
  then show "snd (ddc_set_location_traced m self checkout_date nights location calls)
          = calls @ [location]"
    by (simp add: ddc_set_location_traced_snd)
next
  assume "first_morning checkout_date nights = Inl e"
  then show "ddc_set_location_traced m self checkout_date nights location calls
          = (Raised e self, calls)"
    by (rule ddc_set_location_traced_overflow)
next
  assume "first_morning checkout_date nights = Inr fm
        \<and> ddc_home_distance m self location = Inl e"
  then show "ddc_set_location_traced m self checkout_date nights location calls
          = (Raised e self, calls @ [location])"
    by (simp add: ddc_set_location_traced_raises)
next
  assume "first_morning checkout_date nights = Inr fm
        \<and> ddc_home_distance m self location = Inr distance_value"
  then show "\<exists>c locs'.
           dc_coordinates (location_coordinates self) location = Inr c
           \<and> ddc_set_location_traced m self checkout_date nights location calls
               = (Returned (self\<lparr>locations := locs'\<rparr>), calls @ [location])
           \<and> (\<forall>d. map_of locs' d =
                 (if fm \<le> d \<and> d \<le> checkout_date \<and> d \<in> fst ` set (locations self)
                  then Some (Some \<lparr>city = location, coordinates = c,
                                   distance = Some distance_value\<rparr>)
                  else map_of (locations self) d))"
    using ddc_set_location_traced_ok [of checkout_date nights fm m self location distance_value
        calls]
    by simp
qed

theorem distance_once_per_call_witness:
  "(\<exists>locs'. ddc_set_location_traced exact_math example_distance_calendar 13 3 ''A/East'' []
               = (Returned (example_distance_calendar\<lparr>locations := locs'\<rparr>), [''A/East''])
      \<and> map_of locs' 10 = Some None
      \<and> map_of locs' 11
          = Some (Some \<lparr>city = ''A/East'', coordinates = JCoords 0 90,
                         distance = Some (pi / 2 * 3958.7613)\<rparr>)
      \<and> map_of locs' 12
          = Some (Some \<lparr>city = ''A/East'', coordinates = JCoords 0 90,
                         distance = Some (pi / 2 * 3958.7613)\<rparr>))
   \<and> snd (ddc_set_location_traced exact_math example_distance_calendar 13 3 ''A/East''
            [''B'']) = [''B'', ''A/East'']
   \<and> fst (ddc_set_location_traced exact_math example_distance_calendar 13 3 ''A/East'' [])
       = ddc_set_location exact_math example_distance_calendar 13 3 ''A/East''
   \<and> ddc_set_location_traced exact_math example_distance_calendar 13 3 ''A/North'' []
       = (Raised (SystemExit (not_found_output ''A/North'')) example_distance_calendar,
          [''A/North''])
   \<and> ddc_set_location_traced exact_math example_distance_calendar 3652059 0 ''A/East'' []
       = (Raised OverflowError example_distance_calendar, [])"
proof -
  note w = distance_once_per_call [where m = exact_math and self = example_distance_calendar
      and checkout_date = 13 and nights = 3 and fm = 11]
  have h: "first_morning 13 3 = Inr 11
      \<and> ddc_home_distance exact_math example_distance_calendar ''A/East''
          = Inr (pi / 2 * 3958.7613)"
    by (simp only: example_first_morning example_home_distance_East)
  from w [where location = "''A/East''" and calls = "[]"
        and distance_value = "pi / 2 * 3958.7613",
      THEN conjunct2, THEN conjunct2, THEN conjunct2, THEN conjunct2, rule_format, OF h]
  obtain c locs' where
    c: "dc_coordinates (location_coordinates example_distance_calendar) ''A/East'' = Inr c"
    and r: "ddc_set_location_traced exact_math example_distance_calendar 13 3 ''A/East'' []
          = (Returned (example_distance_calendar\<lparr>locations := locs'\<rparr>), [] @ [''A/East''])"
    and mp: "\<And>d. map_of locs' d =
          (if 11 \<le> d \<and> d \<le> 13 \<and> d \<in> fst ` set (locations example_distance_calendar)
           then Some (Some \<lparr>city = ''A/East'', coordinates = c,
                            distance = Some (pi / 2 * 3958.7613)\<rparr>)
           else map_of (locations example_distance_calendar) d)"
    by blast
  from c have c_eq: "c = JCoords 0 90"
    by (simp add: example_distance_calendar_fields example_East)
  have entries: "map_of locs' 10 = Some None"
    "map_of locs' 11 = Some (Some \<lparr>city = ''A/East'', coordinates = JCoords 0 90,
                         distance = Some (pi / 2 * 3958.7613)\<rparr>)"
    "map_of locs' 12 = Some (Some \<lparr>city = ''A/East'', coordinates = JCoords 0 90,
                         distance = Some (pi / 2 * 3958.7613)\<rparr>)"
    using mp [of 10] mp [of 11] mp [of 12]
    by (simp_all add: c_eq example_distance_calendar_fields)
  have first: "\<exists>locs'.
      ddc_set_location_traced exact_math example_distance_calendar 13 3 ''A/East'' []
               = (Returned (example_distance_calendar\<lparr>locations := locs'\<rparr>), [''A/East''])
      \<and> map_of locs' 10 = Some None
      \<and> map_of locs' 11
          = Some (Some \<lparr>city = ''A/East'', coordinates = JCoords 0 90,
                         distance = Some (pi / 2 * 3958.7613)\<rparr>)
      \<and> map_of locs' 12
          = Some (Some \<lparr>city = ''A/East'', coordinates = JCoords 0 90,
                         distance = Some (pi / 2 * 3958.7613)\<rparr>)"
    using r entries by auto
  have second: "snd (ddc_set_location_traced exact_math example_distance_calendar 13 3
      ''A/East'' [''B'']) = [''B'', ''A/East'']"
    using w [where location = "''A/East''" and calls = "[''B'']",
        THEN conjunct2, THEN conjunct1, rule_format, OF example_first_morning]
    by simp
  have third: "fst (ddc_set_location_traced exact_math example_distance_calendar 13 3
      ''A/East'' []) = ddc_set_location exact_math example_distance_calendar 13 3 ''A/East''"
    by (rule w [THEN conjunct1])
  have north: "first_morning 13 3 = Inr 11
      \<and> ddc_home_distance exact_math example_distance_calendar ''A/North''
          = Inl (SystemExit (not_found_output ''A/North''))"
    by (simp add: example_first_morning ddc_home_distance_unresolved
        example_distance_calendar_fields example_North)
  have fourth: "ddc_set_location_traced exact_math example_distance_calendar 13 3
      ''A/North'' []
       = (Raised (SystemExit (not_found_output ''A/North'')) example_distance_calendar,
          [''A/North''])"
    using w [where location = "''A/North''" and calls = "[]"
        and e = "SystemExit (not_found_output ''A/North'')",
        THEN conjunct2, THEN conjunct2, THEN conjunct2, THEN conjunct1, rule_format, OF north]
    by simp
  have last_day: "first_morning 3652059 0 = Inl OverflowError"
    by (simp add: first_morning_def date_sub_days_def date_min_def date_max_def)
  have fifth: "ddc_set_location_traced exact_math example_distance_calendar 3652059 0
      ''A/East'' [] = (Raised OverflowError example_distance_calendar, [])"
    by (rule distance_once_per_call [where m = exact_math
        and self = example_distance_calendar and checkout_date = 3652059 and nights = 0
        and e = OverflowError,
        THEN conjunct2, THEN conjunct2, THEN conjunct1, rule_format, OF last_day])
  from first second third fourth fifth show ?thesis by (intro conjI)
qed

text \<open>
  Claim C9. A second \<^verbatim>\<open>set_location\<close> call with the same arguments, made on the calendar
  as the first call left it, has the outcome of the first call: the same calendar when it
  returned, the same exception and the untouched calendar when it raised. So the calendar
  after two calls is the calendar after one. This holds for both classes and all arguments.
\<close>

theorem set_location_idempotent:
  "dc_set_location (state_of (dc_set_location self checkout_date nights location))
       checkout_date nights location
     = dc_set_location self checkout_date nights location
   \<and> ddc_set_location m (state_of (ddc_set_location m dself checkout_date nights location))
       checkout_date nights location
     = ddc_set_location m dself checkout_date nights location"
proof
  show "dc_set_location (state_of (dc_set_location self checkout_date nights location))
       checkout_date nights location
     = dc_set_location self checkout_date nights location"
  proof (cases "dc_set_location self checkout_date nights location")
    case (Raised e s')
    with dc_set_location_Raised [OF Raised] show ?thesis by simp
  next
    case (Returned s')
    then obtain dates where sd: "stay_dates checkout_date nights = Inr dates"
      by (auto simp: dc_set_location_def split: sum.splits)
    from Returned obtain locs' where
      st: "stamp (dc_entry (location_coordinates self) location) dates (locations self)
            = Returned locs'"
      and s': "s' = self\<lparr>locations := locs'\<rparr>"
      by (cases "stamp (dc_entry (location_coordinates self) location) dates (locations self)")
         (auto simp: dc_set_location_stamp [OF sd])
    have "dc_set_location s' checkout_date nights location = Returned s'"
      using stamp_idem [OF st] by (simp add: s' dc_set_location_stamp [OF sd])
    then show ?thesis by (simp only: Returned state_of.simps)
  qed
  show "ddc_set_location m (state_of (ddc_set_location m dself checkout_date nights location))
       checkout_date nights location
     = ddc_set_location m dself checkout_date nights location"
  proof (cases "ddc_set_location m dself checkout_date nights location")
    case (Raised e s')
    with ddc_set_location_Raised [OF Raised] show ?thesis by simp
  next
    case (Returned s')
    then obtain dates dv where sd: "stay_dates checkout_date nights = Inr dates"
      and dv: "ddc_home_distance m dself location = Inr dv"
      by (auto simp: ddc_set_location_def split: sum.splits)
    from Returned obtain locs' where
      st: "stamp (ddc_entry (location_coordinates dself) location dv) dates (locations dself)
            = Returned locs'"
      and s': "s' = dself\<lparr>locations := locs'\<rparr>"
      by (cases "stamp (ddc_entry (location_coordinates dself) location dv) dates
                   (locations dself)")
         (auto simp: ddc_set_location_stamp [OF sd dv])
    have "ddc_set_location m s' checkout_date nights location = Returned s'"
      using stamp_idem [OF st] by (simp add: s' ddc_set_location_stamp [OF sd] dv)
    then show ?thesis by (simp only: Returned state_of.simps)
  qed
qed

theorem set_location_idempotent_witness:
  "dc_set_location (state_of (dc_set_location example_calendar 13 3 ''A/East'')) 13 3 ''A/East''
     = dc_set_location example_calendar 13 3 ''A/East''
   \<and> ddc_set_location exact_math (state_of (ddc_set_location exact_math example_distance_calendar 13 3 ''A/East''))
       13 3 ''A/East''
     = ddc_set_location exact_math example_distance_calendar 13 3 ''A/East''"
  by (rule set_location_idempotent)

text \<open>
  Claim C10, as stated, fails where the first morning would fall after 9999-12-31: with
  checkout on the last day and \<open>nights = 0\<close> the call raises \<^verbatim>\<open>OverflowError\<close>.
\<close>

theorem empty_range_semantics_counterexample:
  "dc_set_location example_calendar 3652059 0 ''B'' = Raised OverflowError example_calendar"
  by (simp add: dc_set_location_def stay_dates_def first_morning_def date_sub_days_def
      date_min_def date_max_def)

text \<open>
  Claim C10, amended. With \<open>end_date\<close> before \<open>start_date\<close> the constructor returns a calendar
  with no entries (the default location, when given, still has to resolve). With
  \<open>nights \<le> 0\<close> and a first morning that is a \<^verbatim>\<open>date\<close> (not after 9999-12-31),
  \<^verbatim>\<open>DateCollection.set_location\<close> loops over no date and returns with the calendar
  unchanged, whatever the location is.
\<close>

theorem empty_range_semantics:
  "(end_date < start_date \<longrightarrow>
      dc_init table start_date end_date None =
        Inr \<lparr>location_coordinates = table, locations = []\<rparr>
      \<and> (dc_coordinates table default_location = Inr c \<longrightarrow>
           dc_init table start_date end_date (Some default_location) =
             Inr \<lparr>location_coordinates = table, locations = []\<rparr>))
   \<and> (nights \<le> 0 \<and> date_min \<le> checkout_date \<and> checkout_date - (nights - 1) \<le> date_max \<longrightarrow>
        stay_dates checkout_date nights = Inr []
        \<and> dc_set_location self checkout_date nights location = Returned self)"
  by (simp add: dc_init_None dc_init_Some stay_dates_def first_morning_def date_sub_days_def
      dc_inclusive_date_range_def dc_set_location_def)

theorem empty_range_semantics_witness:
  "dc_init example_table 12 10 None =
     Inr \<lparr>location_coordinates = example_table, locations = []\<rparr>
   \<and> dc_init example_table 12 10 (Some ''B'') =
     Inr \<lparr>location_coordinates = example_table, locations = []\<rparr>
   \<and> stay_dates 11 0 = Inr []
   \<and> dc_set_location example_calendar 11 0 ''A/North'' = Returned example_calendar
   \<and> dc_set_location example_calendar 11 (- 3) ''B'' = Returned example_calendar"
  using empty_range_semantics [of 10 12 example_table "''B''" "JCoords 10 20" 0 11
      example_calendar "''A/North''"]
    empty_range_semantics [of 10 12 example_table "''B''" "JCoords 10 20" "- 3" 11
      example_calendar "''B''"]
  by (simp add: example_B date_min_def date_max_def)

end
